theory Spec2Isabelle
  imports Complex_Main "HOL-Library.Sublist"
begin

section \<open>Data model\<close>

text \<open>
  The script \<^verbatim>\<open>combine_crimes_with_naptan_data.py\<close> works on pandas/geopandas tables.
  A cell is missing (NaN/None), a number, a string or a geometry. Numbers are idealised
  as reals; geometries are values of a type \<open>'g\<close> that only the geometry library
  inspects. A row is an association list from column names to cells; a column that a
  row does not mention reads as missing, as after a concatenation with schema union.
\<close>

datatype 'g val = Null | Num real | Str string | Geom 'g

type_synonym 'g row = "(string \<times> 'g val) list"

record 'g table =
  cols :: "string list"
  rws :: "'g row list"
  crs :: "string option"
  geometry_name :: string

datatype error =
    FileNotFoundError "string list"
  | KeyError string
  | TypeError string
  | ValueError string
  | AttributeError string
  | LibraryError string

text \<open>
  Effects: everything the script prints, every CSV file it reads and every file it
  writes is an event. A computation yields the events it produced and either the
  exception that ended it or its value.
\<close>

type_synonym path = "string list"

datatype event = Print string | ReadCsv path | ToFile path

type_synonym 'a io = "event list \<times> (error + 'a)"

definition ok :: "'a \<Rightarrow> 'a io" where
  "ok x = ([], Inr x)"

definition throw :: "error \<Rightarrow> 'a io" where
  "throw e = ([], Inl e)"

definition emit :: "event \<Rightarrow> unit io" where
  "emit e = ([e], Inr ())"

definition io_bind :: "'a io \<Rightarrow> ('a \<Rightarrow> 'b io) \<Rightarrow> 'b io" where
  "io_bind m f =
     (case m of
        (out, Inl e) \<Rightarrow> (out, Inl e)
      | (out, Inr a) \<Rightarrow> (case f a of (out', r) \<Rightarrow> (out @ out', r)))"

definition lift :: "error + 'a \<Rightarrow> 'a io" where
  "lift r = ([], r)"

text \<open>
  \<^verbatim>\<open>raise <str>\<close>: both raise statements of the script have a formatted string as
  operand. Python 3 evaluates the operand and then rejects it, since a string does not
  derive from BaseException: what propagates is this TypeError, and the formatted
  message is dropped.
\<close>

definition raise_str :: "string \<Rightarrow> 'a io" where
  "raise_str msg = throw (TypeError ''exceptions must derive from BaseException'')"

subsection \<open>The geometry library\<close>

text \<open>
  geopandas, shapely and pyproj are not part of the repository. Their operations are
  parameters of the model: building a point from two coordinates (either may be
  missing), reprojecting a table, buffering a geometry and the containment predicate of
  the spatial join.
\<close>

record 'g geolib =
  points_from_xy :: "real option \<Rightarrow> real option \<Rightarrow> 'g val"
  to_crs :: "'g table \<Rightarrow> string \<Rightarrow> error + 'g table"
  buffer :: "'g \<Rightarrow> int \<Rightarrow> 'g"
  is_within :: "'g \<Rightarrow> 'g \<Rightarrow> bool"

subsection \<open>Table operations\<close>

definition get :: "'g row \<Rightarrow> string \<Rightarrow> 'g val" where
  "get r c = (case map_of r c of None \<Rightarrow> Null | Some v \<Rightarrow> v)"

definition put :: "string \<Rightarrow> 'g val \<Rightarrow> 'g row \<Rightarrow> 'g row" where
  "put c v r = filter (\<lambda>kv. fst kv \<noteq> c) r @ [(c, v)]"

text \<open>\<^verbatim>\<open>df[c] = values\<close>: one value per row; a new column is appended to the schema.\<close>

definition set_col :: "string \<Rightarrow> 'g val list \<Rightarrow> 'g table \<Rightarrow> 'g table" where
  "set_col c vs t =
     t\<lparr>cols := (if c \<in> set (cols t) then cols t else cols t @ [c]),
       rws := map (\<lambda>(r, v). put c v r) (zip (rws t) vs)\<rparr>"

definition show_crs :: "string option \<Rightarrow> string" where
  "show_crs c = (case c of None \<Rightarrow> ''None'' | Some s \<Rightarrow> s)"

fun digit_char :: "nat \<Rightarrow> char" where
  "digit_char n = ''0123456789'' ! (n mod 10)"

function str_nat :: "nat \<Rightarrow> string" where
  "str_nat n = (if n < 10 then [digit_char n] else str_nat (n div 10) @ [digit_char n])"
  by pat_completeness auto
termination
  by (relation "measure id") auto

definition str_int :: "int \<Rightarrow> string" where
  "str_int i = (if i < 0 then ''-'' @ str_nat (nat (- i)) else str_nat (nat i))"

text \<open>The format \<^verbatim>\<open>{n:,}\<close>: decimal digits in groups of three, separated by commas.\<close>

function fmt_thousands :: "nat \<Rightarrow> string" where
  "fmt_thousands n =
     (if n < 1000 then str_nat n
      else fmt_thousands (n div 1000) @ '','' @
           [digit_char (n div 100), digit_char (n div 10), digit_char n])"
  by pat_completeness auto
termination
  by (relation "measure id") auto

section \<open>CRS normalisation and buffering\<close>

text \<open>
  \<^verbatim>\<open>check_crs\<close> (lines 221-242): return the table if it carries the CRS; otherwise
  print, reproject and test again; reproject a second time and test again; raise.
\<close>

definition check_crs :: "'g geolib \<Rightarrow> 'g table \<Rightarrow> string \<Rightarrow> 'g table io" where
  "check_crs lib gdf c =
     (if crs gdf = Some c then ok gdf
      else
        io_bind (emit (Print (''Detected crs:'' @ show_crs (crs gdf) @ '', transforming to: '' @ c))) (\<lambda>_.
        io_bind (lift (to_crs lib gdf c)) (\<lambda>gdf1.
          if crs gdf1 = Some c then ok gdf1
          else
            io_bind (lift (to_crs lib gdf1 c)) (\<lambda>gdf2.
              if crs gdf2 = Some c then ok gdf2
              else raise_str (''ERROR: Could not convert gdf from '' @ show_crs (crs gdf2) @ '' to '' @ c)))))"

text \<open>
  \<^verbatim>\<open>gdf[geom_col].buffer(buffer_m)\<close>: a missing geometry stays missing; a cell that is
  no geometry has no \<^verbatim>\<open>buffer\<close>.
\<close>

fun buffer_cell :: "'g geolib \<Rightarrow> int \<Rightarrow> 'g val \<Rightarrow> error + 'g val" where
  "buffer_cell lib m (Geom g) = Inr (Geom (buffer lib g m))"
| "buffer_cell lib m Null = Inr Null"
| "buffer_cell lib m v = Inl (AttributeError ''buffer'')"

fun sequence :: "(error + 'a) list \<Rightarrow> error + 'a list" where
  "sequence [] = Inr []"
| "sequence (x # xs) =
     (case x of
        Inl e \<Rightarrow> Inl e
      | Inr a \<Rightarrow> (case sequence xs of Inl e \<Rightarrow> Inl e | Inr as \<Rightarrow> Inr (a # as)))"

definition column :: "'g table \<Rightarrow> string \<Rightarrow> error + 'g val list" where
  "column t c =
     (if c \<in> set (cols t) then Inr (map (\<lambda>r. get r c) (rws t)) else Inl (KeyError c))"

text \<open>\<^verbatim>\<open>apply_point_buffer\<close> (lines 193-213).\<close>

definition apply_point_buffer :: "'g geolib \<Rightarrow> 'g table \<Rightarrow> int \<Rightarrow> string \<Rightarrow> 'g table io" where
  "apply_point_buffer lib gdf buffer_m geom_col =
     io_bind (emit (Print (''Applying point buffer of '' @ str_int buffer_m @ '' metres''))) (\<lambda>_.
     io_bind (if crs gdf \<noteq> Some ''EPSG:27700'' then lift (to_crs lib gdf ''EPSG:27700'') else ok gdf) (\<lambda>gdf1.
       if crs gdf1 \<noteq> Some ''EPSG:27700''
       then raise_str (''Error: GDF could not be converted from '' @ show_crs (crs gdf1) @ '' to EPSG:27700'')
       else
         io_bind (lift (column gdf1 geom_col)) (\<lambda>points.
         io_bind (lift (sequence (map (buffer_cell lib buffer_m) points))) (\<lambda>discs.
         let gdf2 = set_col (''buffered_'' @ geom_col) discs gdf1 in
         io_bind (emit (Print (''Buffer created on '' @ fmt_thousands (length (rws gdf2)) @
                               '' points from '' @ [CHR 0x27] @ geom_col @ [CHR 0x27] @ '' as '' @
                               [CHR 0x27] @ ''buffered_'' @ geom_col @ [CHR 0x27]))) (\<lambda>_.
         ok gdf2)))))"

section \<open>Loading\<close>

text \<open>
  The file system and the clock are inputs: \<open>listdir\<close> is \<^verbatim>\<open>os.listdir\<close> (\<open>None\<close> when
  the directory does not exist), \<open>read_csv\<close> is \<^verbatim>\<open>pd.read_csv\<close>, and \<open>now k\<close> is what
  the \<open>k\<close>-th call of \<^verbatim>\<open>ct()\<close> returns. The tqdm progress bar writes to the terminal only
  and is left out.
\<close>

record 'g env =
  listdir :: "path \<Rightarrow> string list option"
  read_csv :: "path \<Rightarrow> error + 'g table"
  now :: "nat \<Rightarrow> string"

definition CRIME_DATA_PATH :: path where
  "CRIME_DATA_PATH = [''E:'', ''Data'', ''Crime Data'']"

definition NAPTAN_DIR :: path where
  "NAPTAN_DIR = [''E:'', ''Data'', ''NaPTAN'']"

definition GEOMETRY_COL :: string where
  "GEOMETRY_COL = ''geometry''"

definition NAPTAN_BUFFER_M :: int where
  "NAPTAN_BUFFER_M = 100"

definition GROUPBY_COLS :: "string list" where
  "GROUPBY_COLS = [''NaptanCode'', ''Crime type'']"

text \<open>\<^verbatim>\<open>".csv" in filename\<close> is a substring test.\<close>

definition is_csv :: "string \<Rightarrow> bool" where
  "is_csv filename = sublist ''.csv'' filename"

text \<open>\<^verbatim>\<open>s.replace(old, new)\<close> for a non-empty \<open>old\<close>: every occurrence, left to right.\<close>

function replace :: "string \<Rightarrow> string \<Rightarrow> string \<Rightarrow> string" where
  "replace old new [] = []"
| "replace old new (c # cs) =
     (if old \<noteq> [] \<and> prefix old (c # cs)
      then new @ replace old new (drop (length old) (c # cs))
      else c # replace old new cs)"
  by pat_completeness auto
termination
  by (relation "measure (\<lambda>(old, new, s). length s)") (auto simp: neq_Nil_conv)

text \<open>
  A coordinate cell handed to \<^verbatim>\<open>points_from_xy\<close>: a number, a missing value, or
  something that does not convert to a float.
\<close>

fun coord :: "'g val \<Rightarrow> error + real option" where
  "coord (Num x) = Inr (Some x)"
| "coord Null = Inr None"
| "coord v = Inl (ValueError ''could not convert to float'')"

text \<open>\<^verbatim>\<open>create_geospatial_dataset\<close> (lines 166-190).\<close>

definition create_geospatial_dataset ::
  "'g geolib \<Rightarrow> 'g table \<Rightarrow> string \<Rightarrow> string \<Rightarrow> string \<Rightarrow> 'g table io" where
  "create_geospatial_dataset lib df x_col y_col c =
     io_bind (lift (column df x_col)) (\<lambda>xs.
     io_bind (lift (column df y_col)) (\<lambda>ys.
     io_bind (lift (sequence (map coord xs))) (\<lambda>xs'.
     io_bind (lift (sequence (map coord ys))) (\<lambda>ys'.
     let df1 = set_col ''geometry'' (map (\<lambda>(x, y). points_from_xy lib x y) (zip xs' ys')) df;
         geo_df = df1\<lparr>crs := Some c, geometry_name := ''geometry''\<rparr>
     in if crs geo_df \<noteq> Some c then lift (to_crs lib geo_df c) else ok geo_df))))"

text \<open>
  \<^verbatim>\<open>read_naptan_data\<close> (lines 39-79). The body of the loop over the CSV files ends with
  \<^verbatim>\<open>return\<close>, so the loop never reaches a second file; with no file to loop over
  the function falls off its end and returns \<^verbatim>\<open>None\<close>.
\<close>

fun naptan_loop ::
  "'g env \<Rightarrow> 'g geolib \<Rightarrow> path \<Rightarrow> string \<Rightarrow> string \<Rightarrow> string \<Rightarrow> bool \<Rightarrow> string list
   \<Rightarrow> 'g table option io" where
  "naptan_loop env lib data_dir x_col y_col c export_geo [] = ok None"
| "naptan_loop env lib data_dir x_col y_col c export_geo (file # rest) =
     io_bind (emit (Print (''Reading NaPTAN: '' @ file))) (\<lambda>_.
     io_bind (emit (ReadCsv (data_dir @ [file]))) (\<lambda>_.
     io_bind (lift (read_csv env (data_dir @ [file]))) (\<lambda>stop_data.
     io_bind (create_geospatial_dataset lib stop_data x_col y_col c) (\<lambda>geo_stop_data.
     io_bind (if export_geo
              then let filename = ''geo_'' @ replace ''.csv'' ''.gpkg'' file in
                   io_bind (emit (Print (''Exporting Geo NaPTAN data: '' @ filename))) (\<lambda>_.
                   emit (ToFile (data_dir @ [filename])))
              else ok ()) (\<lambda>_.
     ok (Some geo_stop_data))))))"

definition read_naptan_data ::
  "'g env \<Rightarrow> 'g geolib \<Rightarrow> path \<Rightarrow> string \<Rightarrow> string \<Rightarrow> string \<Rightarrow> bool \<Rightarrow> 'g table option io" where
  "read_naptan_data env lib data_dir x_col y_col c export_geo =
     (case listdir env data_dir of
        None \<Rightarrow> throw (FileNotFoundError data_dir)
      | Some names \<Rightarrow>
          naptan_loop env lib data_dir x_col y_col c export_geo (filter is_csv names))"

text \<open>
  \<^verbatim>\<open>pd.concat([combined_data, data])\<close>: the rows of both, under the union of the two
  schemas. Concatenating onto the empty frame the loader starts from gives the second
  table.
\<close>

definition empty_frame :: "'g table" where
  "empty_frame = \<lparr>cols = [], rws = [], crs = None, geometry_name = []\<rparr>"

definition pd_concat :: "'g table \<Rightarrow> 'g table \<Rightarrow> 'g table" where
  "pd_concat a b =
     (if cols a = [] \<and> rws a = [] then b
      else a\<lparr>cols := cols a @ filter (\<lambda>c. c \<notin> set (cols a)) (cols b),
             rws := rws a @ rws b\<rparr>)"

type_synonym 'g datasets = "string \<rightharpoonup> (string \<rightharpoonup> 'g table)"

text \<open>\<^verbatim>\<open>read_and_create_geo_data\<close> (lines 82-163): the loop over the files of one directory.\<close>

fun crime_files_loop ::
  "'g env \<Rightarrow> 'g geolib \<Rightarrow> path \<Rightarrow> string \<Rightarrow> string \<Rightarrow> string \<Rightarrow> bool \<Rightarrow> string \<Rightarrow> string list
   \<Rightarrow> 'g datasets \<times> 'g table \<Rightarrow> ('g datasets \<times> 'g table) io" where
  "crime_files_loop env lib p x_col y_col c export_geo year [] st = ok st"
| "crime_files_loop env lib p x_col y_col c export_geo year (file # rest) (all_data, combined_data) =
     io_bind (emit (ReadCsv (p @ [file]))) (\<lambda>_.
     io_bind (lift (read_csv env (p @ [file]))) (\<lambda>data0.
     io_bind (create_geospatial_dataset lib data0 x_col y_col c) (\<lambda>data.
     io_bind (if export_geo
              then emit (ToFile (p @ [''geo_'' @ replace ''.csv'' ''.gpkg'' file]))
              else ok ()) (\<lambda>_.
     let of_year = (case all_data year of None \<Rightarrow> Map.empty | Some d \<Rightarrow> d);
         all_data' = all_data(year \<mapsto> of_year(replace ''.csv'' [] file \<mapsto> data))
     in crime_files_loop env lib p x_col y_col c export_geo year rest
          (all_data', pd_concat combined_data data)))))"

text \<open>
  The loop over the sub-directories. The path of a sub-directory is built from the
  constant \<^verbatim>\<open>CRIME_DATA_PATH\<close>, not from \<^verbatim>\<open>data_dir\<close>.
\<close>

fun crime_dirs_loop ::
  "'g env \<Rightarrow> 'g geolib \<Rightarrow> string \<Rightarrow> string \<Rightarrow> string \<Rightarrow> bool \<Rightarrow> string list
   \<Rightarrow> 'g datasets \<times> 'g table \<Rightarrow> ('g datasets \<times> 'g table) io" where
  "crime_dirs_loop env lib x_col y_col c export_geo [] st = ok st"
| "crime_dirs_loop env lib x_col y_col c export_geo (directory # rest) (all_data, combined_data) =
     (let year = take 4 directory;
          all_data1 = (if all_data year = None then all_data(year \<mapsto> Map.empty) else all_data);
          p = CRIME_DATA_PATH @ [directory]
      in (case listdir env p of
            None \<Rightarrow> throw (FileNotFoundError p)
          | Some names \<Rightarrow>
              io_bind (crime_files_loop env lib p x_col y_col c export_geo year
                         (filter is_csv names) (all_data1, combined_data)) (\<lambda>st.
              crime_dirs_loop env lib x_col y_col c export_geo rest st)))"

definition read_and_create_geo_data ::
  "'g env \<Rightarrow> 'g geolib \<Rightarrow> path \<Rightarrow> string \<Rightarrow> string \<Rightarrow> string \<Rightarrow> bool
   \<Rightarrow> ('g datasets \<times> 'g table) io" where
  "read_and_create_geo_data env lib data_dir x_col y_col c export_geo =
     (case listdir env data_dir of
        None \<Rightarrow> throw (FileNotFoundError data_dir)
      | Some crime_data_directories \<Rightarrow>
          crime_dirs_loop env lib x_col y_col c export_geo crime_data_directories
            (Map.empty, empty_frame))"

section \<open>Cleaning, join and aggregation\<close>

text \<open>\<^verbatim>\<open>t[t[c].notna()]\<close>: the rows whose cell in column \<open>c\<close> is not missing.\<close>

definition notna_rows :: "'g table \<Rightarrow> string \<Rightarrow> error + 'g table" where
  "notna_rows t c =
     (if c \<in> set (cols t) then Inr (t\<lparr>rws := filter (\<lambda>r. get r c \<noteq> Null) (rws t)\<rparr>)
      else Inl (KeyError c))"

text \<open>\<^verbatim>\<open>t.drop(columns=[c])\<close>.\<close>

definition drop_column :: "string \<Rightarrow> 'g table \<Rightarrow> error + 'g table" where
  "drop_column c t =
     (if c \<in> set (cols t)
      then Inr (t\<lparr>cols := filter (\<lambda>k. k \<noteq> c) (cols t),
                  rws := map (filter (\<lambda>kv. fst kv \<noteq> c)) (rws t)\<rparr>)
      else Inl (KeyError c))"

text \<open>
  \<^verbatim>\<open>gpd.sjoin(how="inner", left_df, right_df, predicate="within")\<close>: one row for every
  pair of a left row and a right row whose active geometries satisfy the predicate; a
  missing geometry matches nothing. A joined row carries the left row's columns and the
  right row's columns other than its active geometry; a name that both sides use gets
  the suffixes \<^verbatim>\<open>_left\<close> and \<^verbatim>\<open>_right\<close>. Row labels are not modelled, so the column
  \<^verbatim>\<open>index_right\<close> of the library's result is absent.
\<close>

definition geom_within :: "'g geolib \<Rightarrow> 'g val \<Rightarrow> 'g val \<Rightarrow> bool" where
  "geom_within lib a b =
     (case (a, b) of (Geom p, Geom q) \<Rightarrow> is_within lib p q | _ \<Rightarrow> False)"

definition matches :: "'g geolib \<Rightarrow> 'g table \<Rightarrow> 'g table \<Rightarrow> 'g row \<Rightarrow> 'g row list" where
  "matches lib left right l =
     filter (\<lambda>r. geom_within lib (get l (geometry_name left)) (get r (geometry_name right)))
       (rws right)"

definition join_row :: "'g table \<Rightarrow> 'g table \<Rightarrow> 'g row \<Rightarrow> 'g row \<Rightarrow> 'g row" where
  "join_row left right l r =
     (let rcols = filter (\<lambda>c. c \<noteq> geometry_name right) (cols right);
          clash = (\<lambda>c. c \<noteq> geometry_name left \<and> c \<in> set (cols left) \<and> c \<in> set rcols)
      in map (\<lambda>c. (if clash c then c @ ''_left'' else c, get l c)) (cols left) @
         map (\<lambda>c. (if clash c then c @ ''_right'' else c, get r c)) rcols)"

definition sjoin :: "'g geolib \<Rightarrow> 'g table \<Rightarrow> 'g table \<Rightarrow> 'g table" where
  "sjoin lib left right =
     (let rcols = filter (\<lambda>c. c \<noteq> geometry_name right) (cols right);
          clash = (\<lambda>c. c \<noteq> geometry_name left \<and> c \<in> set (cols left) \<and> c \<in> set rcols)
      in \<lparr>cols = map (\<lambda>c. if clash c then c @ ''_left'' else c) (cols left) @
                 map (\<lambda>c. if clash c then c @ ''_right'' else c) rcols,
          rws = concat (map (\<lambda>l. map (join_row left right l) (matches lib left right l)) (rws left)),
          crs = crs left,
          geometry_name = geometry_name left\<rparr>)"

text \<open>
  \<^verbatim>\<open>groupby(keys).sum()\<close>. Rows with a missing key are dropped. Within a group every
  other column is summed over its cells that are not missing, with Python's \<^verbatim>\<open>+\<close>:
  numbers add, strings concatenate, anything else is a TypeError; a column with no cell
  left sums to 0. The key columns become the index of the result. The groups are listed
  without repetition; the order in which pandas lists them (sorted by key) is not
  modelled.
\<close>

fun py_add :: "'g val \<Rightarrow> 'g val \<Rightarrow> error + 'g val" where
  "py_add (Num a) (Num b) = Inr (Num (a + b))"
| "py_add (Str a) (Str b) = Inr (Str (a @ b))"
| "py_add a b = Inl (TypeError ''unsupported operand type(s) for +'')"

fun sum_from :: "'g val \<Rightarrow> 'g val list \<Rightarrow> error + 'g val" where
  "sum_from acc [] = Inr acc"
| "sum_from acc (v # vs) =
     (case py_add acc v of Inl e \<Rightarrow> Inl e | Inr acc' \<Rightarrow> sum_from acc' vs)"

definition agg_sum :: "'g val list \<Rightarrow> error + 'g val" where
  "agg_sum vs =
     (case filter (\<lambda>v. v \<noteq> Null) vs of
        [] \<Rightarrow> Inr (Num 0)
      | v # rest \<Rightarrow> sum_from v rest)"

record 'g grouped =
  value_cols :: "string list"
  groups :: "('g val list \<times> 'g row) list"

definition agg_group :: "string list \<Rightarrow> 'g row list \<Rightarrow> error + 'g row" where
  "agg_group vcols g =
     (case sequence (map (\<lambda>c. agg_sum (map (\<lambda>r. get r c) g)) vcols) of
        Inl e \<Rightarrow> Inl e
      | Inr vs \<Rightarrow> Inr (zip vcols vs))"

definition key_of :: "string list \<Rightarrow> 'g row \<Rightarrow> 'g val list" where
  "key_of keys r = map (get r) keys"

definition keyed_rows :: "string list \<Rightarrow> 'g table \<Rightarrow> 'g row list" where
  "keyed_rows keys t = filter (\<lambda>r. Null \<notin> set (key_of keys r)) (rws t)"

definition groupby_sum :: "string list \<Rightarrow> 'g table \<Rightarrow> error + 'g grouped" where
  "groupby_sum keys t =
     (case filter (\<lambda>k. k \<notin> set (cols t)) keys of
        k # _ \<Rightarrow> Inl (KeyError k)
      | [] \<Rightarrow>
          let rs = keyed_rows keys t;
              vcols = filter (\<lambda>c. c \<notin> set keys) (cols t);
              ks = remdups (map (key_of keys) rs)
          in (case sequence (map (\<lambda>k. agg_group vcols (filter (\<lambda>r. key_of keys r = k) rs)) ks) of
                Inl e \<Rightarrow> Inl e
              | Inr aggregated \<Rightarrow> Inr \<lparr>value_cols = vcols, groups = zip ks aggregated\<rparr>))"

text \<open>\<^verbatim>\<open>crimes_per_stop[[...]]\<close>: the listed columns, all of which must exist.\<close>

definition select_cols :: "string list \<Rightarrow> 'g grouped \<Rightarrow> error + 'g grouped" where
  "select_cols cs g =
     (case filter (\<lambda>c. c \<notin> set (value_cols g)) cs of
        c # _ \<Rightarrow> Inl (KeyError c)
      | [] \<Rightarrow>
          Inr \<lparr>value_cols = cs,
               groups = map (\<lambda>(k, row). (k, map (\<lambda>c. (c, get row c)) cs)) (groups g)\<rparr>)"

definition RETAINED_COLS :: "string list" where
  "RETAINED_COLS =
     [''crime_count'', ''Crime ID'', ''Month'', ''Reported by'', ''Falls within'',
      ''Location'', ''LSOA code'', ''LSOA name'', ''Last outcome category'',
      ''ATCOCode'', ''CommonName'', ''Landmark'', ''Street'', ''NptgLocalityCode'',
      ''LocalityName'', ''Status'', ''CreationDateTime'', ''ModificationDateTime'']"

section \<open>The pipeline\<close>

text \<open>
  \<^verbatim>\<open>main\<close> (lines 247-324) is a straight line of stages, each taking the tables the
  previous one left in \<^verbatim>\<open>combined_crime_data\<close> and \<^verbatim>\<open>naptan_data\<close>.
\<close>

text \<open>
  Lines 250-268: load the incidents and report their number, then load the stops and
  report theirs. \<^verbatim>\<open>len(None)\<close> is a TypeError.
\<close>

definition load_stage :: "'g env \<Rightarrow> 'g geolib \<Rightarrow> ('g table \<times> 'g table) io" where
  "load_stage env lib =
     io_bind (read_and_create_geo_data env lib CRIME_DATA_PATH
                ''Longitude'' ''Latitude'' ''EPSG:4326'' False) (\<lambda>(crime_data, combined_crime_data).
     io_bind (emit (Print (''Crime data created for '' @
                           fmt_thousands (length (rws combined_crime_data)) @ '' offences.''))) (\<lambda>_.
     io_bind (read_naptan_data env lib NAPTAN_DIR
                ''Longitude'' ''Latitude'' ''EPSG:4326'' False) (\<lambda>loaded.
     case loaded of
       None \<Rightarrow> throw (TypeError (''object of type '' @ [CHR 0x27] @ ''NoneType'' @ [CHR 0x27] @
                                 '' has no len()''))
     | Some naptan_data \<Rightarrow>
         io_bind (emit (Print (''NaPTAN data loaded for '' @
                               fmt_thousands (length (rws naptan_data)) @ '' PT stops.''))) (\<lambda>_.
         ok (combined_crime_data, naptan_data)))))"

text \<open>Lines 270-273: drop the rows without geometry, stops first.\<close>

definition clean_stage :: "'g table \<times> 'g table \<Rightarrow> ('g table \<times> 'g table) io" where
  "clean_stage tables =
     (case tables of (combined_crime_data, naptan_data) \<Rightarrow>
        io_bind (lift (notna_rows naptan_data GEOMETRY_COL)) (\<lambda>naptan_data'.
        io_bind (lift (notna_rows combined_crime_data GEOMETRY_COL)) (\<lambda>combined_crime_data'.
        ok (combined_crime_data', naptan_data'))))"

text \<open>Lines 275-276: a comment and a message.\<close>

definition remove_old_stage :: "'g table \<times> 'g table \<Rightarrow> ('g table \<times> 'g table) io" where
  "remove_old_stage tables =
     io_bind (emit (Print ''Removing combined crime data for crimes > 12 months ago.'')) (\<lambda>_.
     ok tables)"

text \<open>
  Lines 279-297: buffer the stops, make the buffer their only and active geometry, and
  bring both tables to EPSG:27700.
\<close>

definition buffer_stage :: "'g geolib \<Rightarrow> 'g table \<times> 'g table \<Rightarrow> ('g table \<times> 'g table) io" where
  "buffer_stage lib tables =
     (case tables of (combined_crime_data, naptan_data) \<Rightarrow>
        io_bind (apply_point_buffer lib naptan_data NAPTAN_BUFFER_M GEOMETRY_COL) (\<lambda>buffered.
        io_bind (lift (drop_column GEOMETRY_COL buffered)) (\<lambda>dropped.
        io_bind (check_crs lib (dropped\<lparr>geometry_name := ''buffered_'' @ GEOMETRY_COL\<rparr>)
                   ''EPSG:27700'') (\<lambda>naptan_data'.
        io_bind (check_crs lib combined_crime_data ''EPSG:27700'') (\<lambda>combined_crime_data'.
        ok (combined_crime_data', naptan_data'))))))"

text \<open>Lines 299-307: the spatial join, and the unit count on every joined row.\<close>

definition join_stage :: "'g env \<Rightarrow> 'g geolib \<Rightarrow> 'g table \<times> 'g table \<Rightarrow> 'g table io" where
  "join_stage env lib tables =
     (case tables of (combined_crime_data, naptan_data) \<Rightarrow>
        io_bind (emit (Print (''Commening sjoin: '' @ now env 0))) (\<lambda>_.
        let joined = sjoin lib combined_crime_data naptan_data;
            crime_near_naptan_stops =
              set_col ''crime_count'' (replicate (length (rws joined)) (Num 1)) joined
        in io_bind (emit (Print (''sjoin complete: '' @ now env 1))) (\<lambda>_.
           ok crime_near_naptan_stops)))"

text \<open>Lines 310-324: group, sum, project and report.\<close>

definition aggregate_stage :: "'g env \<Rightarrow> 'g table \<Rightarrow> 'g grouped io" where
  "aggregate_stage env crime_near_naptan_stops =
     io_bind (lift (drop_column GEOMETRY_COL crime_near_naptan_stops)) (\<lambda>without_geometry.
     io_bind (lift (groupby_sum GROUPBY_COLS without_geometry)) (\<lambda>crimes_per_stop.
     io_bind (lift (select_cols RETAINED_COLS crimes_per_stop)) (\<lambda>crimes_per_stop_filtered.
     io_bind (emit (Print ([CHR 0x0A] @ fmt_thousands (length (groups crimes_per_stop_filtered)) @
                           '' stops have crime within '' @ str_int NAPTAN_BUFFER_M @
                           '' metres of NaPTAN stops '' @ now env 2))) (\<lambda>_.
     ok crimes_per_stop_filtered))))"

definition main :: "'g env \<Rightarrow> 'g geolib \<Rightarrow> 'g grouped io" where
  "main env lib =
     io_bind (load_stage env lib) (\<lambda>loaded.
     io_bind (clean_stage loaded) (\<lambda>cleaned.
     io_bind (remove_old_stage cleaned) (\<lambda>kept.
     io_bind (buffer_stage lib kept) (\<lambda>projected.
     io_bind (join_stage env lib projected) (\<lambda>crime_near_naptan_stops.
     aggregate_stage env crime_near_naptan_stops)))))"

section \<open>Example inputs\<close>

text \<open>
  A library instance on which the pipeline can be run: the plane with points and open
  discs, where reprojection only changes the CRS tag and refuses a table that has none.
  \<open>stuck_lib\<close> is the same with a reprojection that hands its input back unchanged.
\<close>

datatype shape = Pt real real | Disc real real int

fun inside :: "shape \<Rightarrow> shape \<Rightarrow> bool" where
  "inside (Pt x y) (Disc a b m) = ((x - a)\<^sup>2 + (y - b)\<^sup>2 < (of_int m)\<^sup>2)"
| "inside _ _ = False"

fun mk_point :: "real option \<Rightarrow> real option \<Rightarrow> shape val" where
  "mk_point (Some a) (Some b) = Geom (Pt a b)"
| "mk_point _ _ = Null"

fun mk_disc :: "shape \<Rightarrow> int \<Rightarrow> shape" where
  "mk_disc (Pt x y) m = Disc x y m"
| "mk_disc d m = d"

definition retag :: "shape table \<Rightarrow> string \<Rightarrow> error + shape table" where
  "retag t c =
     (case crs t of
        None \<Rightarrow> Inl (ValueError ''Cannot transform naive geometries'')
      | Some _ \<Rightarrow> Inr (t\<lparr>crs := Some c\<rparr>))"

definition plane_lib :: "shape geolib" where
  "plane_lib = \<lparr>points_from_xy = mk_point, to_crs = retag, buffer = mk_disc, is_within = inside\<rparr>"

definition stuck_lib :: "shape geolib" where
  "stuck_lib = \<lparr>points_from_xy = mk_point, to_crs = (\<lambda>t c. Inr t), buffer = mk_disc, is_within = inside\<rparr>"

definition crime_cols :: "string list" where
  "crime_cols = [''Crime ID'', ''Month'', ''Reported by'', ''Falls within'', ''Longitude'',
     ''Latitude'', ''Location'', ''LSOA code'', ''LSOA name'', ''Crime type'',
     ''Last outcome category'', ''Context'']"

definition stop_cols :: "string list" where
  "stop_cols = [''ATCOCode'', ''NaptanCode'', ''CommonName'', ''Landmark'', ''Street'',
     ''NptgLocalityCode'', ''LocalityName'', ''Longitude'', ''Latitude'', ''Status'',
     ''CreationDateTime'', ''ModificationDateTime'']"

definition crime :: "string \<Rightarrow> string \<Rightarrow> shape val \<Rightarrow> shape val \<Rightarrow> string \<Rightarrow> shape row" where
  "crime cid month x y ty =
     [(''Crime ID'', Str cid), (''Month'', Str month), (''Longitude'', x), (''Latitude'', y),
      (''Location'', Str ''On or near A''), (''Crime type'', Str ty)]"

definition stop :: "string \<Rightarrow> real \<Rightarrow> real \<Rightarrow> shape row" where
  "stop code x y =
     [(''ATCOCode'', Str (''0100'' @ code)), (''NaptanCode'', Str code),
      (''CommonName'', Str ''High St''), (''Longitude'', Num x), (''Latitude'', Num y)]"

definition frame :: "string list \<Rightarrow> shape row list \<Rightarrow> shape table" where
  "frame cs rs = \<lparr>cols = cs, rws = rs, crs = None, geometry_name = []\<rparr>"

definition demo_crimes :: "shape table" where
  "demo_crimes = frame crime_cols
     [crime ''c1'' ''2010-01'' (Num 10) (Num 0) ''Burglary'',
      crime ''c2'' ''2023-01'' (Num 200) (Num 0) ''Burglary'',
      crime ''c3'' ''2023-01'' (Num 50) (Num 50) ''Theft'',
      crime ''c4'' ''2023-01'' Null Null ''Theft'']"

definition demo_stops :: "shape table" where
  "demo_stops = frame stop_cols [stop ''s1'' 0 0, stop ''s2'' 20 0]"

definition one_stop :: "shape table" where
  "one_stop =
     \<lparr>cols = [''NaptanCode'', ''geometry''],
      rws = [[(''NaptanCode'', Str ''s1''), (''geometry'', Geom (Pt 0 0))]],
      crs = Some ''EPSG:4326'',
      geometry_name = ''geometry''\<rparr>"

definition demo_env :: "shape env" where
  "demo_env =
     \<lparr>listdir = (\<lambda>p.
         if p = CRIME_DATA_PATH then Some [''2023-01'']
         else if p = CRIME_DATA_PATH @ [''2023-01''] then Some [''2023-01-street.csv'', ''readme.txt'']
         else if p = NAPTAN_DIR then Some [''Stops.csv'', ''Other.csv'']
         else None),
      read_csv = (\<lambda>p.
         if p = CRIME_DATA_PATH @ [''2023-01'', ''2023-01-street.csv''] then Inr demo_crimes
         else if p = NAPTAN_DIR @ [''Stops.csv''] then Inr demo_stops
         else Inl (FileNotFoundError p)),
      now = (\<lambda>k. ''12:00:00'')\<rparr>"

text \<open>
  Variants of the example: a stops directory without any CSV file, a crime directory
  without sub-directories, and a crime file whose only incident has no coordinates.
\<close>

definition no_csv_env :: "shape env" where
  "no_csv_env =
     demo_env\<lparr>listdir := (\<lambda>p. if p = NAPTAN_DIR then Some [''readme.txt''] else listdir demo_env p)\<rparr>"

definition no_crime_env :: "shape env" where
  "no_crime_env =
     demo_env\<lparr>listdir := (\<lambda>p. if p = CRIME_DATA_PATH then Some [] else listdir demo_env p)\<rparr>"

definition null_env :: "shape env" where
  "null_env =
     demo_env\<lparr>read_csv := (\<lambda>p.
        if p = CRIME_DATA_PATH @ [''2023-01'', ''2023-01-street.csv'']
        then Inr (frame crime_cols [crime ''c4'' ''2023-01'' Null Null ''Theft''])
        else read_csv demo_env p)\<rparr>"

text \<open>What a run of the loading stage leaves in the geometry column of the incidents.\<close>

definition loaded_geometries :: "('g table \<times> 'g table) io \<Rightarrow> 'g val list" where
  "loaded_geometries m =
     (case snd m of
        Inl e \<Rightarrow> []
      | Inr tables \<Rightarrow> map (\<lambda>r. get r GEOMETRY_COL) (rws (fst tables)))"

definition null_loaded :: "shape table \<times> shape table" where
  "null_loaded = projr (snd (load_stage null_env plane_lib))"

text \<open>One incident at (10, 0) and the buffers of two stops, 20 apart, that both contain it.\<close>

definition incident :: "shape row" where
  "incident = [(''Crime type'', Str ''Theft''), (''geometry'', Geom (Pt 10 0))]"

definition incidents :: "shape table" where
  "incidents =
     \<lparr>cols = [''Crime type'', ''geometry''], rws = [incident],
      crs = Some ''EPSG:27700'', geometry_name = ''geometry''\<rparr>"

definition two_buffers :: "shape table" where
  "two_buffers =
     \<lparr>cols = [''NaptanCode'', ''buffered_geometry''],
      rws = [[(''NaptanCode'', Str ''s1''), (''buffered_geometry'', Geom (Disc 0 0 100))],
             [(''NaptanCode'', Str ''s2''), (''buffered_geometry'', Geom (Disc 20 0 100))]],
      crs = Some ''EPSG:27700'', geometry_name = ''buffered_geometry''\<rparr>"

text \<open>
  A joined table as the spatial join leaves it: stop \<open>s1\<close> with three burglaries and two
  thefts in its buffer, stop \<open>s2\<close> with one theft; and the same with the unit count.
\<close>

definition joined_cols :: "string list" where
  "joined_cols = [''Crime ID'', ''Month'', ''Reported by'', ''Falls within'', ''Location'',
     ''LSOA code'', ''LSOA name'', ''Crime type'', ''Last outcome category'', ''geometry'',
     ''ATCOCode'', ''NaptanCode'', ''CommonName'', ''Landmark'', ''Street'',
     ''NptgLocalityCode'', ''LocalityName'', ''Status'', ''CreationDateTime'',
     ''ModificationDateTime'']"

definition joined_row :: "string \<Rightarrow> string \<Rightarrow> string \<Rightarrow> shape row" where
  "joined_row cid ty code =
     [(''Crime ID'', Str cid), (''Month'', Str ''2023-01''), (''Crime type'', Str ty),
      (''geometry'', Geom (Pt 1 1)), (''NaptanCode'', Str code), (''CommonName'', Str ''High St'')]"

definition demo_joined :: "shape table" where
  "demo_joined =
     \<lparr>cols = joined_cols,
      rws = [joined_row ''b1'' ''Burglary'' ''s1'', joined_row ''t1'' ''Theft'' ''s1'',
             joined_row ''b2'' ''Burglary'' ''s1'', joined_row ''t2'' ''Theft'' ''s2'',
             joined_row ''b3'' ''Burglary'' ''s1'', joined_row ''t3'' ''Theft'' ''s1''],
      crs = Some ''EPSG:27700'', geometry_name = ''geometry''\<rparr>"

definition demo_counted :: "shape table" where
  "demo_counted =
     set_col ''crime_count'' (replicate (length (rws demo_joined)) (Num 1)) demo_joined"

definition demo_aggregate :: "shape grouped" where
  "demo_aggregate = projr (snd (aggregate_stage demo_env demo_counted))"

text \<open>What the aggregation makes of the three burglaries at \<open>s1\<close>.\<close>

definition burglary_row :: "shape row" where
  "burglary_row =
     [(''crime_count'', Num 3), (''Crime ID'', Str ''b1b2b3''),
      (''Month'', Str ''2023-012023-012023-01''), (''Reported by'', Num 0),
      (''Falls within'', Num 0), (''Location'', Num 0), (''LSOA code'', Num 0),
      (''LSOA name'', Num 0), (''Last outcome category'', Num 0), (''ATCOCode'', Num 0),
      (''CommonName'', Str ''High StHigh StHigh St''), (''Landmark'', Num 0),
      (''Street'', Num 0), (''NptgLocalityCode'', Num 0), (''LocalityName'', Num 0),
      (''Status'', Num 0), (''CreationDateTime'', Num 0), (''ModificationDateTime'', Num 0)]"

text \<open>The cell of a group in the outcome of the aggregation.\<close>

definition group_cell :: "'g grouped io \<Rightarrow> 'g val list \<Rightarrow> string \<Rightarrow> 'g val option" where
  "group_cell m k c =
     (case snd m of
        Inl e \<Rightarrow> None
      | Inr F \<Rightarrow> map_option (\<lambda>row. get row c) (map_of (groups F) k))"

text \<open>The stops of the example after their conversion to geospatial form.\<close>

definition demo_geo_stops :: "shape table" where
  "demo_geo_stops =
     projr (snd (create_geospatial_dataset plane_lib demo_stops ''Longitude'' ''Latitude'' ''EPSG:4326''))"

text \<open>
  Tables as they reach the join: six incidents, five of them (three burglaries, two
  thefts) within 100 of the origin; two buffered stops with codes \<open>s1\<close> and \<open>s2\<close>; and
  a single buffered stop at the origin whose NaptanCode is missing.
\<close>

definition crime_geo_cols :: "string list" where
  "crime_geo_cols = [''Crime ID'', ''Month'', ''Reported by'', ''Falls within'', ''Location'',
     ''LSOA code'', ''LSOA name'', ''Crime type'', ''Last outcome category'', ''geometry'']"

definition stop_geo_cols :: "string list" where
  "stop_geo_cols = [''ATCOCode'', ''NaptanCode'', ''CommonName'', ''Landmark'', ''Street'',
     ''NptgLocalityCode'', ''LocalityName'', ''Status'', ''CreationDateTime'',
     ''ModificationDateTime'', ''buffered_geometry'']"

definition geo_incident :: "string \<Rightarrow> string \<Rightarrow> real \<Rightarrow> real \<Rightarrow> shape row" where
  "geo_incident cid ty x y =
     [(''Crime ID'', Str cid), (''Month'', Str ''2023-01''), (''Crime type'', Str ty),
      (''geometry'', Geom (Pt x y))]"

definition five_incidents :: "shape table" where
  "five_incidents =
     \<lparr>cols = crime_geo_cols,
      rws = [geo_incident ''b1'' ''Burglary'' 1 0, geo_incident ''t1'' ''Theft'' 2 0,
             geo_incident ''b2'' ''Burglary'' 3 0, geo_incident ''b3'' ''Burglary'' 4 0,
             geo_incident ''t2'' ''Theft'' 5 0, geo_incident ''t3'' ''Theft'' 500 0],
      crs = Some ''EPSG:27700'', geometry_name = ''geometry''\<rparr>"

definition named_stops :: "shape table" where
  "named_stops =
     \<lparr>cols = stop_geo_cols,
      rws = [[(''ATCOCode'', Str ''0100s1''), (''NaptanCode'', Str ''s1''),
              (''buffered_geometry'', Geom (Disc 0 0 100))],
             [(''ATCOCode'', Str ''0100s2''), (''NaptanCode'', Str ''s2''),
              (''buffered_geometry'', Geom (Disc 500 0 100))]],
      crs = Some ''EPSG:27700'', geometry_name = ''buffered_geometry''\<rparr>"

definition unnamed_stop :: "shape table" where
  "unnamed_stop =
     \<lparr>cols = stop_geo_cols,
      rws = [[(''ATCOCode'', Str ''0100s1''), (''buffered_geometry'', Geom (Disc 0 0 100))]],
      crs = Some ''EPSG:27700'', geometry_name = ''buffered_geometry''\<rparr>"

definition demo_counts :: "shape grouped" where
  "demo_counts =
     projr (snd (io_bind (join_stage demo_env plane_lib (five_incidents, named_stops))
                   (aggregate_stage demo_env)))"

section \<open>Properties\<close>

declare str_nat.simps [simp del]
declare fmt_thousands.simps [simp del]

subsection \<open>Running computations\<close>

lemma io_bind_ok: "io_bind (ok x) f = f x"
  by (simp add: io_bind_def ok_def split: prod.splits)

lemma io_bind_throw: "io_bind (throw e) f = throw e"
  by (simp add: io_bind_def throw_def)

lemma io_bind_emit: "io_bind (emit e) f = (e # fst (f ()), snd (f ()))"
  by (simp add: io_bind_def emit_def split: prod.splits)

lemma io_bind_lift_Inl: "io_bind (lift (Inl e)) f = ([], Inl e)"
  by (simp add: io_bind_def lift_def)

lemma io_bind_lift_Inr: "io_bind (lift (Inr x)) f = f x"
  by (simp add: io_bind_def lift_def split: prod.splits)

lemma io_bind_Inr_iff:
  "io_bind m f = (out, Inr y) \<longleftrightarrow>
   (\<exists>o1 x o2. m = (o1, Inr x) \<and> f x = (o2, Inr y) \<and> out = o1 @ o2)"
  by (cases m; cases "snd m") (auto simp: io_bind_def split: prod.splits)

lemma io_bind_pair_Inl: "io_bind (out, Inl e) f = (out, Inl e)"
  by (simp add: io_bind_def)

lemma io_bind_pair_Inr: "io_bind (out, Inr x) f = (out @ fst (f x), snd (f x))"
  by (simp add: io_bind_def split: prod.splits)

lemmas io_simps = io_bind_ok io_bind_throw io_bind_emit io_bind_lift_Inl io_bind_lift_Inr

lemma check_crs_Inr_crs:
  "check_crs lib T c = (out, Inr R) \<Longrightarrow> crs R = Some c"
  by (cases "to_crs lib T c"; cases "to_crs lib (projr (to_crs lib T c)) c")
     (auto simp: check_crs_def io_simps raise_str_def throw_def ok_def split: if_splits)

subsection \<open>CRS normalisation\<close>

text \<open>
  C5. \<^verbatim>\<open>check_crs\<close> is idempotent: normalising the result of a normalisation to the same
  CRS changes nothing, neither the table nor the outcome nor what is printed; and a
  table that already carries the CRS is returned as it is, silently.
\<close>

theorem check_crs_idempotent:
  "io_bind (check_crs lib T c) (\<lambda>R. check_crs lib R c) = check_crs lib T c \<and>
   (crs T = Some c \<longrightarrow> check_crs lib T c = ok T)"
proof
  show "io_bind (check_crs lib T c) (\<lambda>R. check_crs lib R c) = check_crs lib T c"
  proof (cases "check_crs lib T c")
    case (Pair out r)
    show ?thesis
    proof (cases r)
      case (Inl e)
      with Pair show ?thesis by (simp add: io_bind_def)
    next
      case (Inr R)
      with Pair have "crs R = Some c" by (simp add: check_crs_Inr_crs)
      then have "check_crs lib R c = ok R" by (simp add: check_crs_def)
      with Pair Inr show ?thesis by (simp add: io_bind_def ok_def)
    qed
  qed
next
  show "crs T = Some c \<longrightarrow> check_crs lib T c = ok T"
    by (simp add: check_crs_def)
qed

theorem check_crs_idempotent_witness:
  "crs (one_stop\<lparr>crs := Some ''EPSG:27700''\<rparr>) = Some ''EPSG:27700'' \<and>
   check_crs plane_lib (one_stop\<lparr>crs := Some ''EPSG:27700''\<rparr>) ''EPSG:27700'' =
     ok (one_stop\<lparr>crs := Some ''EPSG:27700''\<rparr>) \<and>
   io_bind (check_crs plane_lib one_stop ''EPSG:27700'') (\<lambda>R. check_crs plane_lib R ''EPSG:27700'') =
     check_crs plane_lib one_stop ''EPSG:27700''"
  using check_crs_idempotent [of plane_lib "one_stop\<lparr>crs := Some ''EPSG:27700''\<rparr>" "''EPSG:27700''"]
        check_crs_idempotent [of plane_lib one_stop "''EPSG:27700''"]
  by simp

text \<open>
  C1. Where the table still reports another CRS after the reprojections, both
  \<^verbatim>\<open>check_crs\<close> and \<^verbatim>\<open>apply_point_buffer\<close> execute \<^verbatim>\<open>raise\<close> on a formatted string. Run
  with a reprojection that returns its input unchanged, each ends in the TypeError by
  which Python rejects a string as an exception; the message naming the two CRS is lost.
\<close>

theorem check_crs_raises_str:
  "check_crs stuck_lib one_stop ''EPSG:27700'' =
     ([Print ''Detected crs:EPSG:4326, transforming to: EPSG:27700''],
      Inl (TypeError ''exceptions must derive from BaseException'')) \<and>
   apply_point_buffer stuck_lib one_stop 100 ''geometry'' =
     ([Print ''Applying point buffer of 100 metres''],
      Inl (TypeError ''exceptions must derive from BaseException''))"
  by (simp add: check_crs_def apply_point_buffer_def stuck_lib_def one_stop_def io_simps
        raise_str_def throw_def show_crs_def str_int_def str_nat.simps)

subsection \<open>Buffering\<close>

lemma sequence_map_Inr:
  "sequence (map f xs) = Inr ys \<Longrightarrow> map f xs = map Inr ys"
proof (induction xs arbitrary: ys)
  case Nil
  then show ?case by simp
next
  case (Cons x xs)
  then show ?case by (auto split: sum.splits)
qed

lemma get_put_same: "get (put c v r) c = v"
  by (induction r) (auto simp: get_def put_def)

lemma get_put_other: "c' \<noteq> c \<Longrightarrow> get (put c v r) c' = get r c'"
  by (induction r) (auto simp: get_def put_def)

lemma set_col_rws_same:
  "length vs = length (rws t) \<Longrightarrow> map (\<lambda>r. get r c) (rws (set_col c vs t)) = vs"
proof -
  assume len: "length vs = length (rws t)"
  have "map (\<lambda>r. get r c) (rws (set_col c vs t)) = map snd (zip (rws t) vs)"
    by (simp add: set_col_def get_put_same split_def)
  with len show ?thesis by simp
qed

lemma set_col_rws_other:
  "length vs = length (rws t) \<Longrightarrow> c' \<noteq> c \<Longrightarrow>
   map (\<lambda>r. get r c') (rws (set_col c vs t)) = map (\<lambda>r. get r c') (rws t)"
proof -
  assume len: "length vs = length (rws t)" and ne: "c' \<noteq> c"
  have "map (\<lambda>r. get r c') (rws (set_col c vs t)) = map (\<lambda>p. get (fst p) c') (zip (rws t) vs)"
    by (simp add: set_col_def get_put_other ne split_def)
  also have "\<dots> = map (\<lambda>r. get r c') (map fst (zip (rws t) vs))"
    by simp
  finally show ?thesis using len by simp
qed

lemma reproject_step: "(if b then lift x else ok y) = lift (if b then x else Inr y)"
  by (simp add: ok_def lift_def)

lemma column_Inr: "column t c = Inr vs \<Longrightarrow> c \<in> set (cols t) \<and> vs = map (\<lambda>r. get r c) (rws t)"
  by (auto simp: column_def split: if_splits)

text \<open>
  C6. \<^verbatim>\<open>apply_point_buffer\<close> reprojects to EPSG:27700 unless the table carries it
  already. When it returns, the table it returns is the reprojected one, tagged
  EPSG:27700, with the column \<^verbatim>\<open>buffered_<geom_col>\<close> holding for every row the library's
  buffer of radius \<open>m\<close> of that row's geometry and every other column as it was. When
  the reprojected table reports another CRS, or the reprojection itself raises, the
  function raises and returns nothing.
\<close>

theorem apply_point_buffer_correct:
  "(apply_point_buffer lib gdf m gc = (out, Inr gdf') \<longrightarrow>
      (\<exists>gdf1.
         (if crs gdf \<noteq> Some ''EPSG:27700'' then to_crs lib gdf ''EPSG:27700'' else Inr gdf) = Inr gdf1 \<and>
         crs gdf1 = Some ''EPSG:27700'' \<and>
         crs gdf' = Some ''EPSG:27700'' \<and>
         ''buffered_'' @ gc \<in> set (cols gdf') \<and>
         map (\<lambda>r. Inr (get r (''buffered_'' @ gc))) (rws gdf') =
           map (\<lambda>r. buffer_cell lib m (get r gc)) (rws gdf1) \<and>
         (\<forall>c. c \<noteq> ''buffered_'' @ gc \<longrightarrow>
            map (\<lambda>r. get r c) (rws gdf') = map (\<lambda>r. get r c) (rws gdf1)))) \<and>
   ((if crs gdf \<noteq> Some ''EPSG:27700'' then to_crs lib gdf ''EPSG:27700'' else Inr gdf) = Inr gdf1 \<and>
      crs gdf1 \<noteq> Some ''EPSG:27700'' \<longrightarrow>
      (\<exists>e. snd (apply_point_buffer lib gdf m gc) = Inl e)) \<and>
   ((if crs gdf \<noteq> Some ''EPSG:27700'' then to_crs lib gdf ''EPSG:27700'' else Inr gdf) = Inl e \<longrightarrow>
      snd (apply_point_buffer lib gdf m gc) = Inl e)"
proof (intro conjI impI)
  assume run: "apply_point_buffer lib gdf m gc = (out, Inr gdf')"
  let ?re = "if crs gdf \<noteq> Some ''EPSG:27700'' then to_crs lib gdf ''EPSG:27700'' else Inr gdf"
  from run obtain g1 where re: "?re = Inr g1"
    by (cases ?re) (simp_all add: apply_point_buffer_def reproject_step io_simps)
  note unfold = apply_point_buffer_def reproject_step io_simps raise_str_def throw_def
  from run re have tagged: "crs g1 = Some ''EPSG:27700''"
    by (cases "crs g1 = Some ''EPSG:27700''") (simp_all add: unfold)
  from run re tagged obtain points where pts: "column g1 gc = Inr points"
    by (cases "column g1 gc") (simp_all add: unfold)
  from run re tagged pts obtain discs
    where ds: "sequence (map (buffer_cell lib m) points) = Inr discs"
    by (cases "sequence (map (buffer_cell lib m) points)") (simp_all add: unfold)
  from run re tagged pts ds have res: "gdf' = set_col (''buffered_'' @ gc) discs g1"
    by (simp add: unfold Let_def ok_def)
  from pts have points: "points = map (\<lambda>r. get r gc) (rws g1)"
    by (simp add: column_Inr)
  from ds have eq: "map (buffer_cell lib m) points = map Inr discs"
    by (rule sequence_map_Inr)
  then have "length points = length discs"
    by (rule map_eq_imp_length_eq)
  then have len: "length discs = length (rws g1)"
    using points by simp
  have c1: "crs gdf' = Some ''EPSG:27700''"
    using res tagged by (simp add: set_col_def)
  have c2: "''buffered_'' @ gc \<in> set (cols gdf')"
    using res by (simp add: set_col_def)
  have "map (\<lambda>r. get r (''buffered_'' @ gc)) (rws gdf') = discs"
    using res len by (simp add: set_col_rws_same)
  then have "map Inr (map (\<lambda>r. get r (''buffered_'' @ gc)) (rws gdf')) = map Inr discs"
    by simp
  then have "map (\<lambda>r. Inr (get r (''buffered_'' @ gc))) (rws gdf') = map Inr discs"
    by (simp add: comp_def)
  then have c3: "map (\<lambda>r. Inr (get r (''buffered_'' @ gc))) (rws gdf') =
                 map (\<lambda>r. buffer_cell lib m (get r gc)) (rws g1)"
    using eq points by (simp add: comp_def)
  have c4: "\<forall>c. c \<noteq> ''buffered_'' @ gc \<longrightarrow>
              map (\<lambda>r. get r c) (rws gdf') = map (\<lambda>r. get r c) (rws g1)"
    using res len by (simp add: set_col_rws_other)
  show "\<exists>gdf1. ?re = Inr gdf1 \<and> crs gdf1 = Some ''EPSG:27700'' \<and> crs gdf' = Some ''EPSG:27700'' \<and>
          ''buffered_'' @ gc \<in> set (cols gdf') \<and>
          map (\<lambda>r. Inr (get r (''buffered_'' @ gc))) (rws gdf') =
            map (\<lambda>r. buffer_cell lib m (get r gc)) (rws gdf1) \<and>
          (\<forall>c. c \<noteq> ''buffered_'' @ gc \<longrightarrow>
             map (\<lambda>r. get r c) (rws gdf') = map (\<lambda>r. get r c) (rws gdf1))"
    using re tagged c1 c2 c3 c4 by blast
next
  assume "(if crs gdf \<noteq> Some ''EPSG:27700'' then to_crs lib gdf ''EPSG:27700'' else Inr gdf) = Inr gdf1 \<and>
          crs gdf1 \<noteq> Some ''EPSG:27700''"
  then show "\<exists>e. snd (apply_point_buffer lib gdf m gc) = Inl e"
    by (simp add: apply_point_buffer_def reproject_step io_simps raise_str_def throw_def)
next
  assume "(if crs gdf \<noteq> Some ''EPSG:27700'' then to_crs lib gdf ''EPSG:27700'' else Inr gdf) = Inl e"
  then show "snd (apply_point_buffer lib gdf m gc) = Inl e"
    by (simp add: apply_point_buffer_def reproject_step io_simps)
qed

theorem apply_point_buffer_correct_witness:
  "apply_point_buffer plane_lib one_stop 100 ''geometry'' =
     ([Print ''Applying point buffer of 100 metres'',
       Print (''Buffer created on 1 points from '' @ [CHR 0x27] @ ''geometry'' @ [CHR 0x27] @
              '' as '' @ [CHR 0x27] @ ''buffered_geometry'' @ [CHR 0x27])],
      Inr \<lparr>cols = [''NaptanCode'', ''geometry'', ''buffered_geometry''],
           rws = [[(''NaptanCode'', Str ''s1''), (''geometry'', Geom (Pt 0 0)),
                   (''buffered_geometry'', Geom (Disc 0 0 100))]],
           crs = Some ''EPSG:27700'', geometry_name = ''geometry''\<rparr>) \<and>
   to_crs plane_lib one_stop ''EPSG:27700'' = Inr (one_stop\<lparr>crs := Some ''EPSG:27700''\<rparr>) \<and>
   to_crs stuck_lib one_stop ''EPSG:27700'' = Inr one_stop \<and>
   crs one_stop \<noteq> Some ''EPSG:27700'' \<and>
   (\<exists>e. snd (apply_point_buffer stuck_lib one_stop 100 ''geometry'') = Inl e) \<and>
   to_crs plane_lib (one_stop\<lparr>crs := None\<rparr>) ''EPSG:27700'' =
     Inl (ValueError ''Cannot transform naive geometries'') \<and>
   snd (apply_point_buffer plane_lib (one_stop\<lparr>crs := None\<rparr>) 100 ''geometry'') =
     Inl (ValueError ''Cannot transform naive geometries'')"
proof -
  have run: "apply_point_buffer plane_lib one_stop 100 ''geometry'' =
     ([Print ''Applying point buffer of 100 metres'',
       Print (''Buffer created on 1 points from '' @ [CHR 0x27] @ ''geometry'' @ [CHR 0x27] @
              '' as '' @ [CHR 0x27] @ ''buffered_geometry'' @ [CHR 0x27])],
      Inr \<lparr>cols = [''NaptanCode'', ''geometry'', ''buffered_geometry''],
           rws = [[(''NaptanCode'', Str ''s1''), (''geometry'', Geom (Pt 0 0)),
                   (''buffered_geometry'', Geom (Disc 0 0 100))]],
           crs = Some ''EPSG:27700'', geometry_name = ''geometry''\<rparr>)"
    by (simp add: apply_point_buffer_def plane_lib_def one_stop_def retag_def io_simps
          column_def get_def set_col_def put_def str_int_def str_nat.simps fmt_thousands.simps ok_def)
  have re1: "to_crs plane_lib one_stop ''EPSG:27700'' = Inr (one_stop\<lparr>crs := Some ''EPSG:27700''\<rparr>)"
    by (simp add: plane_lib_def retag_def one_stop_def)
  have re2: "to_crs stuck_lib one_stop ''EPSG:27700'' = Inr one_stop"
    by (simp add: stuck_lib_def)
  have re3: "to_crs plane_lib (one_stop\<lparr>crs := None\<rparr>) ''EPSG:27700'' =
               Inl (ValueError ''Cannot transform naive geometries'')"
    by (simp add: plane_lib_def retag_def one_stop_def)
  have tag: "crs one_stop \<noteq> Some ''EPSG:27700''"
    by (simp add: one_stop_def)
  from apply_point_buffer_correct [of stuck_lib one_stop 100 "''geometry''" _ _ one_stop] re2 tag
  have fails: "\<exists>e. snd (apply_point_buffer stuck_lib one_stop 100 ''geometry'') = Inl e"
    by simp
  from apply_point_buffer_correct [of plane_lib "one_stop\<lparr>crs := None\<rparr>" 100 "''geometry''" _ _ _
         "ValueError ''Cannot transform naive geometries''"] re3
  have raises: "snd (apply_point_buffer plane_lib (one_stop\<lparr>crs := None\<rparr>) 100 ''geometry'') =
                  Inl (ValueError ''Cannot transform naive geometries'')"
    by simp
  from run re1 re2 re3 tag fails raises show ?thesis
    by blast
qed

subsection \<open>Loading the stops\<close>

lemma silent_bind:
  "fst m = [] \<Longrightarrow> (\<And>x. fst (f x) = []) \<Longrightarrow> fst (io_bind m f) = []"
  by (cases m; cases "snd m") (auto simp: io_bind_def split: prod.splits)

lemma silent_lift: "fst (lift r) = []"
  by (simp add: lift_def)

lemma silent_ok: "fst (ok x) = []"
  by (simp add: ok_def)

lemma create_geospatial_dataset_silent:
  "fst (create_geospatial_dataset lib df x y c) = []"
  unfolding create_geospatial_dataset_def Let_def
  by (intro silent_bind silent_lift) (simp add: silent_lift silent_ok)

text \<open>
  C7. When the listing of the stops directory has an eligible file, \<^verbatim>\<open>read_naptan_data\<close>
  reads the first eligible file of the listing and no other CSV file. If that file reads
  and converts, the function returns its geospatial conversion; if reading or converting
  raises, so does the function. Whatever follows the first eligible file in the listing
  has no influence, the result is never \<^verbatim>\<open>None\<close>, and a table that is returned is the
  conversion of that file.
\<close>

theorem read_naptan_data_first_file:
  "listdir env d = Some names \<Longrightarrow> filter is_csv names = file # rest \<Longrightarrow>
   read_naptan_data env lib d x y c ex = naptan_loop env lib d x y c ex [file] \<and>
   ReadCsv (d @ [file]) \<in> set (fst (read_naptan_data env lib d x y c ex)) \<and>
   (\<forall>p. ReadCsv p \<in> set (fst (read_naptan_data env lib d x y c ex)) \<longrightarrow> p = d @ [file]) \<and>
   snd (read_naptan_data env lib d x y c ex) \<noteq> Inr None \<and>
   (\<forall>df t. read_csv env (d @ [file]) = Inr df \<and>
           snd (create_geospatial_dataset lib df x y c) = Inr t \<longrightarrow>
           snd (read_naptan_data env lib d x y c ex) = Inr (Some t)) \<and>
   (\<forall>e. read_csv env (d @ [file]) = Inl e \<longrightarrow>
        snd (read_naptan_data env lib d x y c ex) = Inl e) \<and>
   (\<forall>df e. read_csv env (d @ [file]) = Inr df \<and>
           snd (create_geospatial_dataset lib df x y c) = Inl e \<longrightarrow>
           snd (read_naptan_data env lib d x y c ex) = Inl e) \<and>
   (\<forall>t. snd (read_naptan_data env lib d x y c ex) = Inr (Some t) \<longrightarrow>
      (\<exists>df. read_csv env (d @ [file]) = Inr df \<and>
            snd (create_geospatial_dataset lib df x y c) = Inr t))"
proof -
  assume ls: "listdir env d = Some names" and fs: "filter is_csv names = file # rest"
  have eq: "read_naptan_data env lib d x y c ex = naptan_loop env lib d x y c ex [file]"
    by (simp add: read_naptan_data_def ls fs)
  show ?thesis
  proof (cases "read_csv env (d @ [file])")
    case (Inl e)
    then show ?thesis
      by (simp add: eq io_simps)
  next
    case (Inr df)
    obtain o1 r where cg: "create_geospatial_dataset lib df x y c = (o1, r)"
      by (cases "create_geospatial_dataset lib df x y c")
    with create_geospatial_dataset_silent [of lib df x y c] have o1: "o1 = []"
      by simp
    show ?thesis
    proof (cases r)
      case (Inl e)
      with Inr cg o1 show ?thesis
        by (simp add: eq io_simps io_bind_pair_Inl)
    next
      case r: (Inr t)
      with Inr cg o1 show ?thesis
        by (simp add: eq io_simps io_bind_pair_Inr emit_def Let_def ok_def)
    qed
  qed
qed

theorem read_naptan_data_first_file_witness:
  "listdir demo_env NAPTAN_DIR = Some [''Stops.csv'', ''Other.csv''] \<and>
   filter is_csv [''Stops.csv'', ''Other.csv''] = [''Stops.csv'', ''Other.csv''] \<and>
   read_csv demo_env (NAPTAN_DIR @ [''Stops.csv'']) = Inr demo_stops \<and>
   snd (create_geospatial_dataset plane_lib demo_stops ''Longitude'' ''Latitude'' ''EPSG:4326'') =
     Inr demo_geo_stops \<and>
   snd (read_naptan_data demo_env plane_lib NAPTAN_DIR ''Longitude'' ''Latitude'' ''EPSG:4326'' False) =
     Inr (Some demo_geo_stops) \<and>
   map (\<lambda>r. (get r ''NaptanCode'', get r ''geometry'')) (rws demo_geo_stops) =
     [(Str ''s1'', Geom (Pt 0 0)), (Str ''s2'', Geom (Pt 20 0))] \<and>
   crs demo_geo_stops = Some ''EPSG:4326'' \<and>
   ReadCsv (NAPTAN_DIR @ [''Stops.csv''])
     \<in> set (fst (read_naptan_data demo_env plane_lib NAPTAN_DIR
                      ''Longitude'' ''Latitude'' ''EPSG:4326'' False)) \<and>
   ReadCsv (NAPTAN_DIR @ [''Other.csv''])
     \<notin> set (fst (read_naptan_data demo_env plane_lib NAPTAN_DIR
                      ''Longitude'' ''Latitude'' ''EPSG:4326'' False))"
proof -
  have ls: "listdir demo_env NAPTAN_DIR = Some [''Stops.csv'', ''Other.csv'']"
    by (simp add: demo_env_def NAPTAN_DIR_def CRIME_DATA_PATH_def)
  have fs: "filter is_csv [''Stops.csv'', ''Other.csv''] = [''Stops.csv'', ''Other.csv'']"
    by code_simp
  have rd: "read_csv demo_env (NAPTAN_DIR @ [''Stops.csv'']) = Inr demo_stops"
    by (simp add: demo_env_def NAPTAN_DIR_def CRIME_DATA_PATH_def)
  have cg: "snd (create_geospatial_dataset plane_lib demo_stops ''Longitude'' ''Latitude'' ''EPSG:4326'') =
              Inr demo_geo_stops"
    unfolding demo_geo_stops_def by code_simp
  have rows: "map (\<lambda>r. (get r ''NaptanCode'', get r ''geometry'')) (rws demo_geo_stops) =
                [(Str ''s1'', Geom (Pt 0 0)), (Str ''s2'', Geom (Pt 20 0))]"
    unfolding demo_geo_stops_def by code_simp
  have tag: "crs demo_geo_stops = Some ''EPSG:4326''"
    unfolding demo_geo_stops_def by code_simp
  have ne: "NAPTAN_DIR @ [''Other.csv''] \<noteq> NAPTAN_DIR @ [''Stops.csv'']"
    by simp
  note inst = read_naptan_data_first_file [OF ls fs, of plane_lib "''Longitude''" "''Latitude''"
               "''EPSG:4326''" False]
  from inst rd cg
  have res: "snd (read_naptan_data demo_env plane_lib NAPTAN_DIR ''Longitude'' ''Latitude'' ''EPSG:4326'' False) =
               Inr (Some demo_geo_stops)"
    by blast
  from inst ne ls fs rd cg rows tag res show ?thesis
    by blast
qed

subsection \<open>The stages of main\<close>

text \<open>
  C10. The step that announces the removal of incidents older than twelve months prints
  its message and hands on the two tables exactly as it received them; in \<^verbatim>\<open>main\<close> the
  buffering and join stages therefore run on the tables the cleaning stage produced.
\<close>

theorem remove_old_stage_keeps_tables:
  "remove_old_stage tables =
     ([Print ''Removing combined crime data for crimes > 12 months ago.''], Inr tables) \<and>
   main env lib =
     io_bind (load_stage env lib) (\<lambda>loaded.
     io_bind (clean_stage loaded) (\<lambda>cleaned.
     io_bind (emit (Print ''Removing combined crime data for crimes > 12 months ago.'')) (\<lambda>_.
     io_bind (buffer_stage lib cleaned) (\<lambda>projected.
     io_bind (join_stage env lib projected) (\<lambda>crime_near_naptan_stops.
     aggregate_stage env crime_near_naptan_stops)))))"
  by (simp add: remove_old_stage_def main_def io_simps ok_def io_bind_pair_Inr)

text \<open>
  C4. With a stops directory that holds no CSV file, \<^verbatim>\<open>read_naptan_data\<close> raises nothing
  and returns \<^verbatim>\<open>None\<close>; \<^verbatim>\<open>main\<close> then stops at \<^verbatim>\<open>len(None)\<close> with a TypeError that does
  not name the directory. With a crime directory without sub-directories the loader
  returns the empty frame, \<^verbatim>\<open>main\<close> reports 0 offences, loads the stops and stops at the
  lookup of the geometry column.
\<close>

theorem read_naptan_data_no_csv:
  "read_naptan_data no_csv_env plane_lib NAPTAN_DIR ''Longitude'' ''Latitude'' ''EPSG:4326'' False =
     ([], Inr None) \<and>
   snd (main no_csv_env plane_lib) =
     Inl (TypeError (''object of type '' @ [CHR 0x27] @ ''NoneType'' @ [CHR 0x27] @ '' has no len()'')) \<and>
   Print ''Crime data created for 0 offences.'' \<in> set (fst (main no_crime_env plane_lib)) \<and>
   snd (main no_crime_env plane_lib) = Inl (KeyError ''geometry'')"
  by code_simp

subsection \<open>Incidents without geometry\<close>

lemma load_stage_reports:
  assumes "load_stage env lib = (out, Inr (combined, naptan))"
  shows "Print (''Crime data created for '' @ fmt_thousands (length (rws combined)) @ '' offences.'')
           \<in> set out"
proof -
  let ?rd = "read_and_create_geo_data env lib CRIME_DATA_PATH ''Longitude'' ''Latitude'' ''EPSG:4326'' False"
  let ?rn = "read_naptan_data env lib NAPTAN_DIR ''Longitude'' ''Latitude'' ''EPSG:4326'' False"
  obtain o1 r1 where rd: "?rd = (o1, r1)" by (cases ?rd)
  obtain o2 r2 where rn: "?rn = (o2, r2)" by (cases ?rn)
  from assms rd obtain cd cb where r1: "r1 = Inr (cd, cb)"
    by (cases r1) (auto simp: load_stage_def io_bind_pair_Inl)
  from assms rd rn r1 obtain n where r2: "r2 = Inr (Some n)"
    by (cases r2; cases "projr r2")
       (auto simp: load_stage_def io_bind_pair_Inl io_bind_pair_Inr io_simps throw_def)
  from assms rd rn r1 r2 show ?thesis
    by (auto simp: load_stage_def io_bind_pair_Inr io_simps ok_def)
qed

lemma clean_stage_rows:
  assumes "clean_stage (combined, naptan) = (out, Inr (combined', naptan'))"
  shows "rws combined' = filter (\<lambda>r. get r GEOMETRY_COL \<noteq> Null) (rws combined)"
    and "rws naptan' = filter (\<lambda>r. get r GEOMETRY_COL \<noteq> Null) (rws naptan)"
proof -
  from assms obtain n1 where n1: "notna_rows naptan GEOMETRY_COL = Inr n1"
    by (cases "notna_rows naptan GEOMETRY_COL") (simp_all add: clean_stage_def io_simps)
  with assms obtain c1 where c1: "notna_rows combined GEOMETRY_COL = Inr c1"
    by (cases "notna_rows combined GEOMETRY_COL") (simp_all add: clean_stage_def io_simps)
  from assms n1 c1 have eq: "combined' = c1" "naptan' = n1"
    by (simp_all add: clean_stage_def io_simps ok_def)
  from c1 show "rws combined' = filter (\<lambda>r. get r GEOMETRY_COL \<noteq> Null) (rws combined)"
    unfolding eq by (auto simp: notna_rows_def split: if_splits)
  from n1 show "rws naptan' = filter (\<lambda>r. get r GEOMETRY_COL \<noteq> Null) (rws naptan)"
    unfolding eq by (auto simp: notna_rows_def split: if_splits)
qed

text \<open>
  C3 as stated fails: the number of offences is printed right after loading, before
  the rows without geometry are removed. With a crime file whose only incident has no
  coordinates, that incident's geometry is missing and the program reports 1 offence.
\<close>

theorem null_geometry_counted_counterexample:
  "loaded_geometries (load_stage null_env plane_lib) = [Null] \<and>
   Print ''Crime data created for 1 offences.'' \<in> set (fst (main null_env plane_lib))"
  by code_simp

text \<open>
  C3, amended. The count reported after loading is the number of all loaded incident
  rows. The cleaning stage keeps exactly the incident rows whose geometry is not
  missing, and an incident row without geometry has no joined row, whatever the stops.
\<close>

theorem null_geometry_rows:
  "(load_stage env lib = (out, Inr (combined, naptan)) \<longrightarrow>
      Print (''Crime data created for '' @ fmt_thousands (length (rws combined)) @ '' offences.'')
        \<in> set out) \<and>
   (clean_stage (combined, naptan) = (out', Inr (combined', naptan')) \<longrightarrow>
      rws combined' = filter (\<lambda>r. get r GEOMETRY_COL \<noteq> Null) (rws combined)) \<and>
   (get l (geometry_name L) = Null \<longrightarrow> rws (sjoin lib (L\<lparr>rws := [l]\<rparr>) R) = [])"
proof (intro conjI impI)
  assume "load_stage env lib = (out, Inr (combined, naptan))"
  then show "Print (''Crime data created for '' @ fmt_thousands (length (rws combined)) @ '' offences.'')
        \<in> set out"
    by (rule load_stage_reports)
next
  assume "clean_stage (combined, naptan) = (out', Inr (combined', naptan'))"
  then show "rws combined' = filter (\<lambda>r. get r GEOMETRY_COL \<noteq> Null) (rws combined)"
    by (rule clean_stage_rows)
next
  assume "get l (geometry_name L) = Null"
  then show "rws (sjoin lib (L\<lparr>rws := [l]\<rparr>) R) = []"
    by (simp add: sjoin_def matches_def geom_within_def Let_def)
qed

lemma collapse_run: "snd m = Inr x \<Longrightarrow> m = (fst m, Inr (fst x, snd x))"
  by (cases m) simp

theorem null_geometry_rows_witness:
  "loaded_geometries (load_stage null_env plane_lib) = [Null] \<and>
   Print ''Crime data created for 1 offences.'' \<in> set (fst (load_stage null_env plane_lib)) \<and>
   length (rws (fst null_loaded)) = 1 \<and>
   fst (clean_stage null_loaded) = [] \<and>
   rws (fst (projr (snd (clean_stage null_loaded)))) = []"
proof -
  have ld: "snd (load_stage null_env plane_lib) = Inr null_loaded"
    unfolding null_loaded_def by code_simp
  have len: "length (rws (fst null_loaded)) = 1"
    unfolding null_loaded_def by code_simp
  have geo: "loaded_geometries (load_stage null_env plane_lib) = [Null]"
    by code_simp
  have cl: "snd (clean_stage null_loaded) = Inr (projr (snd (clean_stage null_loaded)))"
    unfolding null_loaded_def by code_simp
  have quiet: "fst (clean_stage null_loaded) = []"
    unfolding null_loaded_def by code_simp
  have flt: "filter (\<lambda>r. get r GEOMETRY_COL \<noteq> Null) (rws (fst null_loaded)) = []"
    unfolding null_loaded_def by code_simp
  from null_geometry_rows [of null_env plane_lib "fst (load_stage null_env plane_lib)"
         "fst null_loaded" "snd null_loaded" _ _ _ "[]" "\<lparr>cols = [], rws = [], crs = None, geometry_name = []\<rparr>"]
       collapse_run [OF ld]
  have p: "Print (''Crime data created for '' @ fmt_thousands (length (rws (fst null_loaded))) @ '' offences.'')
        \<in> set (fst (load_stage null_env plane_lib))"
    by simp
  have "fmt_thousands 1 = ''1''"
    by (simp add: fmt_thousands.simps str_nat.simps)
  with p len have p': "Print ''Crime data created for 1 offences.'' \<in> set (fst (load_stage null_env plane_lib))"
    by simp
  from null_geometry_rows [of _ _ _ "fst null_loaded" "snd null_loaded" "fst (clean_stage null_loaded)"
         "fst (projr (snd (clean_stage null_loaded)))" "snd (projr (snd (clean_stage null_loaded)))"]
       collapse_run [OF cl] flt
  have c: "rws (fst (projr (snd (clean_stage null_loaded)))) = []"
    by simp
  from geo p' len quiet c show ?thesis
    by blast
qed

subsection \<open>Aggregation\<close>

lemma get_filter_other: "c' \<noteq> c \<Longrightarrow> get (filter (\<lambda>kv. fst kv \<noteq> c) r) c' = get r c'"
  by (induction r) (auto simp: get_def)

lemma key_of_drop:
  "c \<notin> set keys \<Longrightarrow> key_of keys (filter (\<lambda>kv. fst kv \<noteq> c) r) = key_of keys r"
  by (auto simp: key_of_def intro!: get_filter_other)

lemma key_of_put: "c \<notin> set keys \<Longrightarrow> key_of keys (put c v r) = key_of keys r"
  by (auto simp: key_of_def intro!: get_put_other)

lemma drop_column_Inr:
  "drop_column c t = Inr w \<Longrightarrow>
   c \<in> set (cols t) \<and> rws w = map (filter (\<lambda>kv. fst kv \<noteq> c)) (rws t) \<and>
   cols w = filter (\<lambda>k. k \<noteq> c) (cols t)"
  by (auto simp: drop_column_def split: if_splits)

lemma keyed_rows_map:
  "(\<And>r. key_of keys (f r) = key_of keys r) \<Longrightarrow> rws w = map f (rws t) \<Longrightarrow>
   keyed_rows keys w = map f (keyed_rows keys t)"
  by (simp add: keyed_rows_def filter_map comp_def)

lemma zip_map_Inr:
  "map f xs = map Inr ys \<Longrightarrow> (x, y) \<in> set (zip xs ys) \<Longrightarrow> f x = Inr y"
proof (induction xs arbitrary: ys)
  case Nil
  then show ?case by simp
next
  case (Cons a xs)
  then show ?case by (cases ys) auto
qed

lemma groupby_sum_Inr:
  assumes "groupby_sum keys t = Inr G"
  shows "map fst (groups G) = remdups (map (key_of keys) (keyed_rows keys t))"
    and "value_cols G = filter (\<lambda>c. c \<notin> set keys) (cols t)"
    and "(k, row) \<in> set (groups G) \<Longrightarrow>
         agg_group (value_cols G) (filter (\<lambda>r. key_of keys r = k) (keyed_rows keys t)) = Inr row"
proof -
  let ?rs = "keyed_rows keys t"
  let ?vcols = "filter (\<lambda>c. c \<notin> set keys) (cols t)"
  let ?ks = "remdups (map (key_of keys) ?rs)"
  let ?f = "\<lambda>k. agg_group ?vcols (filter (\<lambda>r. key_of keys r = k) ?rs)"
  from assms obtain aggregated
    where seq: "sequence (map ?f ?ks) = Inr aggregated"
      and G: "G = \<lparr>value_cols = ?vcols, groups = zip ?ks aggregated\<rparr>"
    by (auto simp: groupby_sum_def Let_def split: list.splits sum.splits)
  from seq have eq: "map ?f ?ks = map Inr aggregated"
    by (rule sequence_map_Inr)
  then have len: "length ?ks = length aggregated"
    by (rule map_eq_imp_length_eq)
  show "map fst (groups G) = ?ks"
    using G len by simp
  show "value_cols G = ?vcols"
    using G by simp
  show "agg_group (value_cols G) (filter (\<lambda>r. key_of keys r = k) ?rs) = Inr row"
    if "(k, row) \<in> set (groups G)"
    using that G zip_map_Inr [OF eq, of k row] by simp
qed

lemma map_of_zip_Inr:
  "map h xs = map Inr vs \<Longrightarrow> c \<in> set xs \<Longrightarrow>
   \<exists>v. h c = Inr v \<and> map_of (zip xs vs) c = Some v"
proof (induction xs arbitrary: vs)
  case Nil
  then show ?case by simp
next
  case (Cons a xs)
  then show ?case by (cases vs) auto
qed

lemma agg_group_Inr:
  assumes "agg_group vcols g = Inr row" and "c \<in> set vcols"
  shows "agg_sum (map (\<lambda>r. get r c) g) = Inr (get row c)"
proof -
  let ?h = "\<lambda>c. agg_sum (map (\<lambda>r. get r c) g)"
  from assms(1) obtain vs where seq: "sequence (map ?h vcols) = Inr vs" and row: "row = zip vcols vs"
    by (auto simp: agg_group_def split: sum.splits)
  from seq have "map ?h vcols = map Inr vs"
    by (rule sequence_map_Inr)
  from map_of_zip_Inr [OF this assms(2)] row show ?thesis
    by (auto simp: get_def)
qed

lemma get_map_pairs: "c \<in> set cs \<Longrightarrow> get (map (\<lambda>c. (c, f c)) cs) c = f c"
  by (induction cs) (auto simp: get_def)

lemma select_cols_Inr:
  assumes "select_cols cs G = Inr F"
  shows "map fst (groups F) = map fst (groups G)"
    and "set cs \<subseteq> set (value_cols G)"
    and "(k, row) \<in> set (groups F) \<Longrightarrow>
         \<exists>row'. (k, row') \<in> set (groups G) \<and> (\<forall>c \<in> set cs. get row c = get row' c)"
proof -
  from assms have none: "filter (\<lambda>c. c \<notin> set (value_cols G)) cs = []"
    and F: "F = \<lparr>value_cols = cs,
                 groups = map (\<lambda>(k, row). (k, map (\<lambda>c. (c, get row c)) cs)) (groups G)\<rparr>"
    by (auto simp: select_cols_def split: list.splits)
  show "map fst (groups F) = map fst (groups G)"
    using F by (simp add: comp_def split_def)
  show "set cs \<subseteq> set (value_cols G)"
    using none by (auto simp: filter_empty_conv)
  show "\<exists>row'. (k, row') \<in> set (groups G) \<and> (\<forall>c \<in> set cs. get row c = get row' c)"
    if "(k, row) \<in> set (groups F)"
    using that F by (auto simp: get_map_pairs)
qed

lemma aggregate_stage_Inr:
  assumes "snd (aggregate_stage env J) = Inr F"
  shows "\<exists>W G. drop_column GEOMETRY_COL J = Inr W \<and> groupby_sum GROUPBY_COLS W = Inr G \<and>
               select_cols RETAINED_COLS G = Inr F"
proof -
  from assms obtain W where W: "drop_column GEOMETRY_COL J = Inr W"
    by (cases "drop_column GEOMETRY_COL J") (simp_all add: aggregate_stage_def io_simps)
  with assms obtain G where G: "groupby_sum GROUPBY_COLS W = Inr G"
    by (cases "groupby_sum GROUPBY_COLS W") (simp_all add: aggregate_stage_def io_simps)
  with assms W obtain F' where F': "select_cols RETAINED_COLS G = Inr F'"
    by (cases "select_cols RETAINED_COLS G") (simp_all add: aggregate_stage_def io_simps)
  with assms W G have "F' = F"
    by (simp add: aggregate_stage_def io_simps ok_def)
  with W G F' show ?thesis by simp
qed

lemma retained_not_key: "c \<in> set RETAINED_COLS \<Longrightarrow> c \<notin> set GROUPBY_COLS \<and> c \<noteq> GEOMETRY_COL"
  by (auto simp: RETAINED_COLS_def GROUPBY_COLS_def GEOMETRY_COL_def)

lemma geometry_not_key: "GEOMETRY_COL \<notin> set GROUPBY_COLS"
  by (simp add: GROUPBY_COLS_def GEOMETRY_COL_def)

lemma aggregate_stage_cells:
  assumes "snd (aggregate_stage env J) = Inr F"
  shows "map fst (groups F) = remdups (map (key_of GROUPBY_COLS) (keyed_rows GROUPBY_COLS J))"
    and "(k, row) \<in> set (groups F) \<Longrightarrow> c \<in> set RETAINED_COLS \<Longrightarrow>
         agg_sum (map (\<lambda>r. get r c)
                    (filter (\<lambda>r. key_of GROUPBY_COLS r = k) (keyed_rows GROUPBY_COLS J))) =
           Inr (get row c)"
proof -
  let ?d = "filter (\<lambda>kv. fst kv \<noteq> GEOMETRY_COL)"
  from aggregate_stage_Inr [OF assms] obtain W G
    where W: "drop_column GEOMETRY_COL J = Inr W"
      and G: "groupby_sum GROUPBY_COLS W = Inr G"
      and F: "select_cols RETAINED_COLS G = Inr F"
    by blast
  from drop_column_Inr [OF W] have rw: "rws W = map ?d (rws J)"
    by simp
  have kd: "\<And>r. key_of GROUPBY_COLS (?d r) = key_of GROUPBY_COLS r"
    by (rule key_of_drop) (rule geometry_not_key)
  have kr: "keyed_rows GROUPBY_COLS W = map ?d (keyed_rows GROUPBY_COLS J)"
    using kd rw by (rule keyed_rows_map)
  have keys: "map (key_of GROUPBY_COLS) (keyed_rows GROUPBY_COLS W) =
              map (key_of GROUPBY_COLS) (keyed_rows GROUPBY_COLS J)"
    by (simp add: kr kd)
  show "map fst (groups F) = remdups (map (key_of GROUPBY_COLS) (keyed_rows GROUPBY_COLS J))"
    using select_cols_Inr(1) [OF F] groupby_sum_Inr(1) [OF G] keys by simp
  show "agg_sum (map (\<lambda>r. get r c)
                    (filter (\<lambda>r. key_of GROUPBY_COLS r = k) (keyed_rows GROUPBY_COLS J))) =
           Inr (get row c)"
    if mem: "(k, row) \<in> set (groups F)" and c: "c \<in> set RETAINED_COLS"
  proof -
    from select_cols_Inr(3) [OF F mem] c obtain row'
      where mem': "(k, row') \<in> set (groups G)" and same: "get row c = get row' c"
      by blast
    from select_cols_Inr(2) [OF F] c have cv: "c \<in> set (value_cols G)"
      by blast
    from groupby_sum_Inr(3) [OF G mem']
    have "agg_group (value_cols G)
            (filter (\<lambda>r. key_of GROUPBY_COLS r = k) (keyed_rows GROUPBY_COLS W)) = Inr row'" .
    from agg_group_Inr [OF this cv]
    have "agg_sum (map (\<lambda>r. get r c)
            (filter (\<lambda>r. key_of GROUPBY_COLS r = k) (keyed_rows GROUPBY_COLS W))) = Inr (get row' c)" .
    moreover have "map (\<lambda>r. get r c)
            (filter (\<lambda>r. key_of GROUPBY_COLS r = k) (keyed_rows GROUPBY_COLS W)) =
          map (\<lambda>r. get r c)
            (filter (\<lambda>r. key_of GROUPBY_COLS r = k) (keyed_rows GROUPBY_COLS J))"
      using retained_not_key [OF c]
      by (simp add: kr filter_map comp_def kd get_filter_other)
    ultimately show ?thesis
      using same by simp
  qed
qed

lemma sum_from_Num: "sum_from (Num a) (map Num xs) = Inr (Num (a + sum_list xs))"
  by (induction xs arbitrary: a) (simp_all add: add.assoc)

lemma sum_from_Str: "sum_from (Str a) (map Str ss) = Inr (Str (a @ concat ss))"
  by (induction ss arbitrary: a) simp_all

lemma agg_sum_Num:
  "filter (\<lambda>v. v \<noteq> Null) vs = map Num xs \<Longrightarrow> agg_sum vs = Inr (Num (sum_list xs))"
  by (cases xs) (simp_all add: agg_sum_def sum_from_Num)

lemma agg_sum_Str:
  "filter (\<lambda>v. v \<noteq> Null) vs = map Str ss \<Longrightarrow> ss \<noteq> [] \<Longrightarrow> agg_sum vs = Inr (Str (concat ss))"
  by (cases ss) (simp_all add: agg_sum_def sum_from_Str)


lemma set_col_replicate:
  "rws (set_col c (replicate (length (rws t)) v) t) = map (put c v) (rws t)"
proof -
  have "map (\<lambda>(r, v). put c v r) (zip xs (replicate (length xs) v)) = map (put c v) xs" for xs :: "'a row list"
    by (induction xs) auto
  then show ?thesis by (simp add: set_col_def)
qed

lemma agg_sum_ones: "agg_sum (replicate n (Num 1)) = Inr (Num (real n))"
proof -
  have "filter (\<lambda>v. v \<noteq> Null) (replicate n (Num 1 :: 'a val)) = map Num (replicate n 1)"
    by simp
  from agg_sum_Num [OF this] show ?thesis
    by (simp add: sum_list_replicate)
qed

lemma filter_key_keyed:
  "Null \<notin> set k \<Longrightarrow>
   filter (\<lambda>r. key_of keys r = k) (keyed_rows keys t) = filter (\<lambda>r. key_of keys r = k) (rws t)"
  unfolding keyed_rows_def filter_filter
  by (rule filter_cong) auto

lemma distinct_fst_unique:
  "distinct (map fst xs) \<Longrightarrow> (k, a) \<in> set xs \<Longrightarrow> (k, b) \<in> set xs \<Longrightarrow> a = b"
  by (meson eq_key_imp_eq_value)

lemma aggregation_keys_and_counts:
  assumes run: "snd (aggregate_stage env
                  (set_col ''crime_count'' (replicate (length (rws joined)) (Num 1)) joined)) = Inr F"
  shows "distinct (map fst (groups F))"
    and "set (map fst (groups F)) =
           {k \<in> key_of GROUPBY_COLS ` set (rws joined). Null \<notin> set k}"
    and "(k, row) \<in> set (groups F) \<Longrightarrow>
           get row ''crime_count'' =
             Num (real (length (filter (\<lambda>r. key_of GROUPBY_COLS r = k) (rws joined))))"
proof -
  let ?J = "set_col ''crime_count'' (replicate (length (rws joined)) (Num 1)) joined"
  let ?p = "put ''crime_count'' (Num 1)"
  have cc: "''crime_count'' \<notin> set GROUPBY_COLS"
    by (simp add: GROUPBY_COLS_def)
  have kp: "\<And>r. key_of GROUPBY_COLS (?p r) = key_of GROUPBY_COLS r"
    by (rule key_of_put) (rule cc)
  have rj: "rws ?J = map ?p (rws joined)"
    by (rule set_col_replicate)
  have kr: "keyed_rows GROUPBY_COLS ?J = map ?p (keyed_rows GROUPBY_COLS joined)"
    using kp rj by (rule keyed_rows_map)
  have keys: "map fst (groups F) = remdups (map (key_of GROUPBY_COLS) (keyed_rows GROUPBY_COLS joined))"
    using aggregate_stage_cells(1) [OF run] by (simp add: kr kp comp_def)
  show "distinct (map fst (groups F))"
    by (simp add: keys)
  show ks: "set (map fst (groups F)) = {k \<in> key_of GROUPBY_COLS ` set (rws joined). Null \<notin> set k}"
    by (auto simp: keys keyed_rows_def)
  show "get row ''crime_count'' =
          Num (real (length (filter (\<lambda>r. key_of GROUPBY_COLS r = k) (rws joined))))"
    if mem: "(k, row) \<in> set (groups F)"
  proof -
    from mem have "k \<in> set (map fst (groups F))"
      by force
    with ks have nn: "Null \<notin> set k"
      by simp
    have "''crime_count'' \<in> set RETAINED_COLS"
      by (simp add: RETAINED_COLS_def)
    from aggregate_stage_cells(2) [OF run mem this]
    have "agg_sum (map (\<lambda>r. get r ''crime_count'')
            (filter (\<lambda>r. key_of GROUPBY_COLS r = k) (keyed_rows GROUPBY_COLS ?J))) =
          Inr (get row ''crime_count'')" .
    moreover have "map (\<lambda>r. get r ''crime_count'')
            (filter (\<lambda>r. key_of GROUPBY_COLS r = k) (keyed_rows GROUPBY_COLS ?J)) =
          replicate (length (filter (\<lambda>r. key_of GROUPBY_COLS r = k) (rws joined))) (Num 1)"
      by (simp add: kr filter_map comp_def kp get_put_same filter_key_keyed [OF nn] map_replicate_const)
    ultimately show ?thesis
      by (simp add: agg_sum_ones)
  qed
qed

lemma key_of_groupby: "key_of GROUPBY_COLS r = [get r ''NaptanCode'', get r ''Crime type'']"
  by (simp add: key_of_def GROUPBY_COLS_def)

text \<open>
  C2 as stated fails for categorical columns: \<^verbatim>\<open>sum\<close> concatenates strings. The first
  joined row of the example belongs to the group (s1, Burglary) and has Crime ID b1, but
  the group's Crime ID in the output is b1b2b3.
\<close>

theorem categorical_first_value_counterexample:
  "group_cell (aggregate_stage demo_env demo_counted) [Str ''s1'', Str ''Burglary''] ''Crime ID'' =
     Some (Str ''b1b2b3'') \<and>
   get (hd (rws demo_counted)) ''Crime ID'' = Str ''b1'' \<and>
   key_of GROUPBY_COLS (hd (rws demo_counted)) = [Str ''s1'', Str ''Burglary'']"
  by code_simp

text \<open>
  C2, amended. In the output, every retained column of a group holds the sum, taken
  with Python's \<^verbatim>\<open>+\<close> in row order, of the cells of the group's rows that are not
  missing: the arithmetic sum where they are numbers, the concatenation where they are
  strings.
\<close>

theorem aggregation_sums_columns:
  assumes run: "snd (aggregate_stage env J) = Inr F"
    and mem: "(k, row) \<in> set (groups F)"
    and c: "c \<in> set RETAINED_COLS"
  shows "agg_sum (map (\<lambda>r. get r c) (filter (\<lambda>r. key_of GROUPBY_COLS r = k) (rws J))) =
           Inr (get row c) \<and>
         (\<forall>xs. filter (\<lambda>v. v \<noteq> Null)
                 (map (\<lambda>r. get r c) (filter (\<lambda>r. key_of GROUPBY_COLS r = k) (rws J))) = map Num xs
               \<longrightarrow> get row c = Num (sum_list xs)) \<and>
         (\<forall>ss. ss \<noteq> [] \<and>
               filter (\<lambda>v. v \<noteq> Null)
                 (map (\<lambda>r. get r c) (filter (\<lambda>r. key_of GROUPBY_COLS r = k) (rws J))) = map Str ss
               \<longrightarrow> get row c = Str (concat ss))"
proof -
  let ?cells = "map (\<lambda>r. get r c) (filter (\<lambda>r. key_of GROUPBY_COLS r = k) (rws J))"
  from mem have "k \<in> set (map fst (groups F))"
    by force
  then have "Null \<notin> set k"
    by (auto simp: aggregate_stage_cells(1) [OF run] keyed_rows_def)
  from aggregate_stage_cells(2) [OF run mem c] filter_key_keyed [OF this]
  have sum: "agg_sum ?cells = Inr (get row c)"
    by simp
  have num: "get row c = Num (sum_list xs)" if "filter (\<lambda>v. v \<noteq> Null) ?cells = map Num xs" for xs
    using agg_sum_Num [OF that] sum by simp
  have str: "get row c = Str (concat ss)"
    if "ss \<noteq> []" and "filter (\<lambda>v. v \<noteq> Null) ?cells = map Str ss" for ss
    using agg_sum_Str [OF that(2) that(1)] sum by simp
  from sum num str show ?thesis
    by blast
qed

theorem aggregation_sums_columns_witness:
  "snd (aggregate_stage demo_env demo_counted) = Inr demo_aggregate \<and>
   ([Str ''s1'', Str ''Burglary''], burglary_row) \<in> set (groups demo_aggregate) \<and>
   ''Crime ID'' \<in> set RETAINED_COLS \<and>
   get burglary_row ''Crime ID'' = Str ''b1b2b3'' \<and>
   get burglary_row ''crime_count'' = Num 3"
proof -
  have run: "snd (aggregate_stage demo_env demo_counted) = Inr demo_aggregate"
    unfolding demo_aggregate_def by code_simp
  have mem: "([Str ''s1'', Str ''Burglary''], burglary_row) \<in> set (groups demo_aggregate)"
    unfolding demo_aggregate_def burglary_row_def by code_simp
  have c: "''Crime ID'' \<in> set RETAINED_COLS"
    by (simp add: RETAINED_COLS_def)
  have n: "''crime_count'' \<in> set RETAINED_COLS"
    by (simp add: RETAINED_COLS_def)
  have ids: "filter (\<lambda>v. v \<noteq> Null)
               (map (\<lambda>r. get r ''Crime ID'')
                  (filter (\<lambda>r. key_of GROUPBY_COLS r = [Str ''s1'', Str ''Burglary''])
                     (rws demo_counted))) =
             map Str [''b1'', ''b2'', ''b3'']"
    by code_simp
  have ones: "filter (\<lambda>v. v \<noteq> Null)
               (map (\<lambda>r. get r ''crime_count'')
                  (filter (\<lambda>r. key_of GROUPBY_COLS r = [Str ''s1'', Str ''Burglary''])
                     (rws demo_counted))) =
             map Num [1, 1, 1]"
    by code_simp
  from aggregation_sums_columns [OF run mem c] ids
  have "get burglary_row ''Crime ID'' = Str (concat [''b1'', ''b2'', ''b3''])"
    by blast
  moreover from aggregation_sums_columns [OF run mem n] ones
  have "get burglary_row ''crime_count'' = Num (sum_list [1, 1, 1])"
    by blast
  ultimately show ?thesis
    using run mem c by simp
qed

subsection \<open>The join and the counts in main\<close>

lemma join_row_rws: "join_row (L\<lparr>rws := x\<rparr>) R = join_row L R"
  by (intro ext) (simp add: join_row_def)

lemma join_stage_result:
  "join_stage env lib (crimes, stops) =
     ([Print (''Commening sjoin: '' @ now env 0), Print (''sjoin complete: '' @ now env 1)],
      Inr (set_col ''crime_count'' (replicate (length (rws (sjoin lib crimes stops))) (Num 1))
             (sjoin lib crimes stops)))"
  by (simp add: join_stage_def io_simps Let_def ok_def)

lemma join_stage_rows:
  "rws (projr (snd (join_stage env lib (crimes, stops)))) =
     map (put ''crime_count'' (Num 1)) (rws (sjoin lib crimes stops))"
  by (simp add: join_stage_result set_col_replicate)

lemma sjoin_single:
  "rws (sjoin lib (L\<lparr>rws := [l]\<rparr>) R) =
     map (join_row L R l)
       (filter (\<lambda>r. geom_within lib (get l (geometry_name L)) (get r (geometry_name R))) (rws R))"
  by (simp add: sjoin_def matches_def join_row_rws Let_def)

lemma geom_within_Geom:
  "geom_within lib (Geom p) v = (case v of Geom q \<Rightarrow> is_within lib p q | _ \<Rightarrow> False)"
  by (cases v) (simp_all add: geom_within_def)

lemma get_append:
  "get (xs @ ys) c = (if c \<in> fst ` set xs then get xs c else get ys c)"
  by (induction xs) (auto simp: get_def)

lemma join_row_disjoint:
  assumes "set (cols L) \<inter> set (cols R) = {}"
  shows "join_row L R l r =
           map (\<lambda>c. (c, get l c)) (cols L) @
           map (\<lambda>c. (c, get r c)) (filter (\<lambda>c. c \<noteq> geometry_name R) (cols R))"
proof -
  have "\<not> (c \<noteq> geometry_name L \<and> c \<in> set (cols L) \<and>
           c \<in> set (filter (\<lambda>c. c \<noteq> geometry_name R) (cols R)))" for c
    using assms by auto
  then show ?thesis
    unfolding join_row_def Let_def by auto
qed

lemma join_row_cells:
  assumes dis: "set (cols L) \<inter> set (cols R) = {}"
  shows "c \<in> set (cols L) \<Longrightarrow> get (join_row L R l r) c = get l c"
    and "c \<in> set (cols R) \<Longrightarrow> c \<noteq> geometry_name R \<Longrightarrow> get (join_row L R l r) c = get r c"
proof -
  show "get (join_row L R l r) c = get l c" if "c \<in> set (cols L)"
    using that by (simp add: join_row_disjoint [OF dis] get_append get_map_pairs image_comp comp_def)
  show "get (join_row L R l r) c = get r c" if "c \<in> set (cols R)" and "c \<noteq> geometry_name R"
  proof -
    from that(1) dis have "c \<notin> set (cols L)" by auto
    with that show ?thesis
      by (simp add: join_row_disjoint [OF dis] get_append get_map_pairs image_comp comp_def)
  qed
qed

text \<open>
  C9. The join stage of \<^verbatim>\<open>main\<close> (lines 299-307) never fails and is an inner containment
  join with fan-out, the incidents on the left. The joined rows of one incident are one
  row per stop row whose buffer contains the incident's point, in the order of the
  stops, so an incident at a point \<open>p\<close> has as many joined rows as there are stops whose
  buffer \<open>q\<close> satisfies the library's \<open>is_within p q\<close>, and an incident without geometry
  has none. The joined rows of a table are those of its incidents, one incident after
  the other. Where the two tables share no column name, a joined row carries the
  incident's cells and the stop's cells other than its buffer; every joined row carries
  the unit count.
\<close>

theorem join_stage_fan_out:
  "\<not> isl (snd (join_stage env lib (crimes, stops))) \<and>
   rws (projr (snd (join_stage env lib (crimes\<lparr>rws := [l]\<rparr>, stops)))) =
     map (\<lambda>r. put ''crime_count'' (Num 1) (join_row crimes stops l r))
       (filter (\<lambda>r. geom_within lib (get l (geometry_name crimes)) (get r (geometry_name stops)))
          (rws stops)) \<and>
   (get l (geometry_name crimes) = Geom p \<longrightarrow>
      length (rws (projr (snd (join_stage env lib (crimes\<lparr>rws := [l]\<rparr>, stops))))) =
      length (filter (\<lambda>r. case get r (geometry_name stops) of
                             Geom q \<Rightarrow> is_within lib p q | _ \<Rightarrow> False) (rws stops))) \<and>
   (get l (geometry_name crimes) = Null \<longrightarrow>
      rws (projr (snd (join_stage env lib (crimes\<lparr>rws := [l]\<rparr>, stops)))) = []) \<and>
   rws (projr (snd (join_stage env lib (crimes, stops)))) =
     concat (map (\<lambda>l. rws (projr (snd (join_stage env lib (crimes\<lparr>rws := [l]\<rparr>, stops)))))
               (rws crimes)) \<and>
   (set (cols crimes) \<inter> set (cols stops) = {} \<and> c \<noteq> ''crime_count'' \<longrightarrow>
      (c \<in> set (cols crimes) \<longrightarrow>
         get (put ''crime_count'' (Num 1) (join_row crimes stops l r)) c = get l c) \<and>
      (c \<in> set (cols stops) \<and> c \<noteq> geometry_name stops \<longrightarrow>
         get (put ''crime_count'' (Num 1) (join_row crimes stops l r)) c = get r c)) \<and>
   get (put ''crime_count'' (Num 1) (join_row crimes stops l r)) ''crime_count'' = Num 1"
proof (intro conjI impI)
  show "\<not> isl (snd (join_stage env lib (crimes, stops)))"
    by (simp add: join_stage_result)
  show single: "rws (projr (snd (join_stage env lib (crimes\<lparr>rws := [l]\<rparr>, stops)))) =
     map (\<lambda>r. put ''crime_count'' (Num 1) (join_row crimes stops l r))
       (filter (\<lambda>r. geom_within lib (get l (geometry_name crimes)) (get r (geometry_name stops)))
          (rws stops))" for l
    by (simp add: join_stage_rows sjoin_single comp_def)
  show "length (rws (projr (snd (join_stage env lib (crimes\<lparr>rws := [l]\<rparr>, stops))))) =
      length (filter (\<lambda>r. case get r (geometry_name stops) of
                             Geom q \<Rightarrow> is_within lib p q | _ \<Rightarrow> False) (rws stops))"
    if "get l (geometry_name crimes) = Geom p"
    using that by (simp add: single geom_within_Geom)
  show "rws (projr (snd (join_stage env lib (crimes\<lparr>rws := [l]\<rparr>, stops)))) = []"
    if "get l (geometry_name crimes) = Null"
    using that by (simp add: single geom_within_def)
  show "rws (projr (snd (join_stage env lib (crimes, stops)))) =
     concat (map (\<lambda>l. rws (projr (snd (join_stage env lib (crimes\<lparr>rws := [l]\<rparr>, stops)))))
               (rws crimes))"
    by (simp add: join_stage_rows [of env lib crimes stops] sjoin_def matches_def Let_def
          single map_concat comp_def)
  show "get (put ''crime_count'' (Num 1) (join_row crimes stops l r)) c = get l c"
    if "set (cols crimes) \<inter> set (cols stops) = {} \<and> c \<noteq> ''crime_count''" and "c \<in> set (cols crimes)"
    using that by (simp add: get_put_other join_row_cells)
  show "get (put ''crime_count'' (Num 1) (join_row crimes stops l r)) c = get r c"
    if "set (cols crimes) \<inter> set (cols stops) = {} \<and> c \<noteq> ''crime_count''"
      and "c \<in> set (cols stops) \<and> c \<noteq> geometry_name stops"
    using that by (simp add: get_put_other join_row_cells)
  show "get (put ''crime_count'' (Num 1) (join_row crimes stops l r)) ''crime_count'' = Num 1"
    by (rule get_put_same)
qed

theorem join_stage_fan_out_witness:
  "get incident (geometry_name incidents) = Geom (Pt 10 0) \<and>
   length (filter (\<lambda>r. case get r (geometry_name two_buffers) of
                          Geom q \<Rightarrow> is_within plane_lib (Pt 10 0) q | _ \<Rightarrow> False)
             (rws two_buffers)) = 2 \<and>
   length (rws (projr (snd (join_stage demo_env plane_lib
                               (incidents\<lparr>rws := [incident]\<rparr>, two_buffers))))) = 2 \<and>
   map (\<lambda>r. get r ''NaptanCode'')
     (rws (projr (snd (join_stage demo_env plane_lib (incidents, two_buffers))))) =
     [Str ''s1'', Str ''s2'']"
proof -
  have g: "get incident (geometry_name incidents) = Geom (Pt 10 0)"
    by (simp add: incident_def incidents_def get_def)
  have n: "length (filter (\<lambda>r. case get r (geometry_name two_buffers) of
                          Geom q \<Rightarrow> is_within plane_lib (Pt 10 0) q | _ \<Rightarrow> False)
             (rws two_buffers)) = 2"
    by (simp add: two_buffers_def plane_lib_def get_def)
  from join_stage_fan_out [where env = demo_env and lib = plane_lib and crimes = incidents
         and stops = two_buffers and l = incident and p = "Pt 10 0"] g
  have "length (rws (projr (snd (join_stage demo_env plane_lib
                               (incidents\<lparr>rws := [incident]\<rparr>, two_buffers))))) =
        length (filter (\<lambda>r. case get r (geometry_name two_buffers) of
                          Geom q \<Rightarrow> is_within plane_lib (Pt 10 0) q | _ \<Rightarrow> False)
             (rws two_buffers))"
    by blast
  with n have k: "length (rws (projr (snd (join_stage demo_env plane_lib
                               (incidents\<lparr>rws := [incident]\<rparr>, two_buffers))))) = 2"
    by simp
  have codes: "map (\<lambda>r. get r ''NaptanCode'')
     (rws (projr (snd (join_stage demo_env plane_lib (incidents, two_buffers))))) =
     [Str ''s1'', Str ''s2'']"
    by (simp add: join_stage_rows sjoin_def matches_def join_row_def Let_def incidents_def
          incident_def two_buffers_def plane_lib_def geom_within_def get_def put_def)
  from g n k codes show ?thesis
    by blast
qed

lemma join_aggregate_counts:
  assumes run: "snd (io_bind (join_stage env lib (crimes, stops)) (aggregate_stage env)) = Inr F"
  shows "distinct (map fst (groups F))"
    and "set (map fst (groups F)) =
           {k \<in> key_of GROUPBY_COLS ` set (rws (projr (snd (join_stage env lib (crimes, stops))))).
              Null \<notin> set k}"
    and "(k, row) \<in> set (groups F) \<Longrightarrow>
           get row ''crime_count'' =
             Num (real (length (filter (\<lambda>r. key_of GROUPBY_COLS r = k)
                                  (rws (projr (snd (join_stage env lib (crimes, stops))))))))"
proof -
  let ?sj = "sjoin lib crimes stops"
  let ?p = "put ''crime_count'' (Num 1)"
  have cc: "''crime_count'' \<notin> set GROUPBY_COLS"
    by (simp add: GROUPBY_COLS_def)
  have kp: "\<And>r. key_of GROUPBY_COLS (?p r) = key_of GROUPBY_COLS r"
    by (rule key_of_put) (rule cc)
  from run have run': "snd (aggregate_stage env
          (set_col ''crime_count'' (replicate (length (rws ?sj)) (Num 1)) ?sj)) = Inr F"
    by (simp add: join_stage_result io_bind_pair_Inr)
  note facts = aggregation_keys_and_counts [OF run']
  have rows: "rws (projr (snd (join_stage env lib (crimes, stops)))) = map ?p (rws ?sj)"
    by (rule join_stage_rows)
  show "distinct (map fst (groups F))"
    by (rule facts(1))
  show "set (map fst (groups F)) =
           {k \<in> key_of GROUPBY_COLS ` set (rws (projr (snd (join_stage env lib (crimes, stops))))).
              Null \<notin> set k}"
    unfolding facts(2) rows by (simp add: image_comp comp_def kp)
  show "get row ''crime_count'' =
             Num (real (length (filter (\<lambda>r. key_of GROUPBY_COLS r = k)
                                  (rws (projr (snd (join_stage env lib (crimes, stops))))))))"
    if "(k, row) \<in> set (groups F)"
    unfolding rows using facts(3) [OF that] by (simp add: filter_map comp_def kp)
qed

text \<open>
  C8 as stated fails for a stop without identifier: \<^verbatim>\<open>groupby\<close> drops the rows whose key
  is missing. A stop whose NaptanCode is missing and whose buffer contains three
  burglaries and two thefts has five joined rows, and the aggregate output is empty.
\<close>

theorem stop_without_code_counterexample:
  "length (filter (\<lambda>r. get r ''Crime type'' = Str ''Burglary'')
             (rws (projr (snd (join_stage demo_env plane_lib (five_incidents, unnamed_stop)))))) = 3 \<and>
   length (filter (\<lambda>r. get r ''Crime type'' = Str ''Theft'')
             (rws (projr (snd (join_stage demo_env plane_lib (five_incidents, unnamed_stop)))))) = 2 \<and>
   snd (io_bind (join_stage demo_env plane_lib (five_incidents, unnamed_stop))
          (aggregate_stage demo_env)) =
     Inr \<lparr>value_cols = RETAINED_COLS, groups = []\<rparr>"
  by code_simp

text \<open>
  C8, amended. Joining and aggregating as \<^verbatim>\<open>main\<close> does (lines 299-321) groups the joined
  rows by (NaptanCode, Crime type) and sums the unit count, so the count of a group is
  the number of joined rows with its key. For a stop whose identifier \<open>s\<close> is present and
  whose joined rows are three burglaries and two thefts, the output has exactly two rows
  for \<open>s\<close>, one for Burglary with count 3 and one for Theft with count 2.
\<close>

theorem aggregation_counts:
  assumes run: "snd (io_bind (join_stage env lib (crimes, stops)) (aggregate_stage env)) = Inr F"
    and s: "s \<noteq> Null"
    and b: "length (filter (\<lambda>r. get r ''NaptanCode'' = s \<and> get r ''Crime type'' = Str ''Burglary'')
                      (rws (projr (snd (join_stage env lib (crimes, stops)))))) = 3"
    and t: "length (filter (\<lambda>r. get r ''NaptanCode'' = s \<and> get r ''Crime type'' = Str ''Theft'')
                      (rws (projr (snd (join_stage env lib (crimes, stops)))))) = 2"
    and only: "\<forall>r \<in> set (rws (projr (snd (join_stage env lib (crimes, stops))))).
                 get r ''NaptanCode'' = s \<longrightarrow>
                 get r ''Crime type'' = Str ''Burglary'' \<or> get r ''Crime type'' = Str ''Theft''"
  shows "(\<forall>k row. (k, row) \<in> set (groups F) \<longrightarrow>
            get row ''crime_count'' =
              Num (real (length (filter (\<lambda>r. key_of GROUPBY_COLS r = k)
                                   (rws (projr (snd (join_stage env lib (crimes, stops))))))))) \<and>
         (\<exists>rb rt.
            set (filter (\<lambda>g. hd (fst g) = s) (groups F)) =
              {([s, Str ''Burglary''], rb), ([s, Str ''Theft''], rt)} \<and>
            length (filter (\<lambda>g. hd (fst g) = s) (groups F)) = 2 \<and>
            get rb ''crime_count'' = Num 3 \<and> get rt ''crime_count'' = Num 2)"
proof
  let ?rows = "rws (projr (snd (join_stage env lib (crimes, stops))))"
  note facts = join_aggregate_counts [OF run]
  show counts: "\<forall>k row. (k, row) \<in> set (groups F) \<longrightarrow>
            get row ''crime_count'' =
              Num (real (length (filter (\<lambda>r. key_of GROUPBY_COLS r = k) ?rows)))"
    using facts(3) by blast
  let ?B = "[s, Str ''Burglary'']" and ?T = "[s, Str ''Theft'']"
  let ?sel = "filter (\<lambda>g. hd (fst g) = s) (groups F)"
  have fb: "filter (\<lambda>r. key_of GROUPBY_COLS r = ?B) ?rows =
            filter (\<lambda>r. get r ''NaptanCode'' = s \<and> get r ''Crime type'' = Str ''Burglary'') ?rows"
    by (simp add: key_of_groupby)
  have ft: "filter (\<lambda>r. key_of GROUPBY_COLS r = ?T) ?rows =
            filter (\<lambda>r. get r ''NaptanCode'' = s \<and> get r ''Crime type'' = Str ''Theft'') ?rows"
    by (simp add: key_of_groupby)
  from b fb have "filter (\<lambda>r. key_of GROUPBY_COLS r = ?B) ?rows \<noteq> []"
    by auto
  then obtain rB where "rB \<in> set ?rows" and "key_of GROUPBY_COLS rB = ?B"
    by (auto simp: filter_empty_conv)
  then have "?B \<in> key_of GROUPBY_COLS ` set ?rows"
    by (metis imageI)
  with s facts(2) have "?B \<in> set (map fst (groups F))"
    by simp
  then obtain rb where rb: "(?B, rb) \<in> set (groups F)"
    by auto
  from t ft have "filter (\<lambda>r. key_of GROUPBY_COLS r = ?T) ?rows \<noteq> []"
    by auto
  then obtain rT where "rT \<in> set ?rows" and "key_of GROUPBY_COLS rT = ?T"
    by (auto simp: filter_empty_conv)
  then have "?T \<in> key_of GROUPBY_COLS ` set ?rows"
    by (metis imageI)
  with s facts(2) have "?T \<in> set (map fst (groups F))"
    by simp
  then obtain rt where rt: "(?T, rt) \<in> set (groups F)"
    by auto
  have cb: "get rb ''crime_count'' = Num 3"
    using facts(3) [OF rb] fb b by simp
  have ct: "get rt ''crime_count'' = Num 2"
    using facts(3) [OF rt] ft t by simp
  have two: "g = (?B, rb) \<or> g = (?T, rt)" if g: "g \<in> set (groups F)" and h: "hd (fst g) = s" for g
  proof -
    obtain k row where kr: "g = (k, row)" by (cases g)
    with g have "k \<in> set (map fst (groups F))"
      by force
    with facts(2) obtain r where r: "r \<in> set ?rows" and k: "k = key_of GROUPBY_COLS r"
      by auto
    from k h kr have "get r ''NaptanCode'' = s"
      by (simp add: key_of_groupby)
    with only r k have "k = ?B \<or> k = ?T"
      by (auto simp: key_of_groupby)
    then show ?thesis
    proof
      assume "k = ?B"
      with g kr rb facts(1) have "row = rb"
        by (auto dest: distinct_fst_unique)
      with \<open>k = ?B\<close> kr show ?thesis by simp
    next
      assume "k = ?T"
      with g kr rt facts(1) have "row = rt"
        by (auto dest: distinct_fst_unique)
      with \<open>k = ?T\<close> kr show ?thesis by simp
    qed
  qed
  have sel: "set ?sel = {(?B, rb), (?T, rt)}"
    using two rb rt by auto
  have "distinct (groups F)"
    using facts(1) by (simp add: distinct_map)
  then have "distinct ?sel"
    by simp
  then have "length ?sel = card (set ?sel)"
    by (rule distinct_card [symmetric])
  with sel have len: "length ?sel = 2"
    by simp
  from sel len cb ct
  show "\<exists>rb rt. set ?sel = {(?B, rb), (?T, rt)} \<and> length ?sel = 2 \<and>
          get rb ''crime_count'' = Num 3 \<and> get rt ''crime_count'' = Num 2"
    by blast
qed

theorem aggregation_counts_witness:
  "snd (io_bind (join_stage demo_env plane_lib (five_incidents, named_stops))
          (aggregate_stage demo_env)) = Inr demo_counts \<and>
   length (filter (\<lambda>r. get r ''NaptanCode'' = Str ''s1'' \<and> get r ''Crime type'' = Str ''Burglary'')
             (rws (projr (snd (join_stage demo_env plane_lib (five_incidents, named_stops)))))) = 3 \<and>
   length (filter (\<lambda>r. get r ''NaptanCode'' = Str ''s1'' \<and> get r ''Crime type'' = Str ''Theft'')
             (rws (projr (snd (join_stage demo_env plane_lib (five_incidents, named_stops)))))) = 2 \<and>
   (\<exists>rb rt.
      set (filter (\<lambda>g. hd (fst g) = Str ''s1'') (groups demo_counts)) =
        {([Str ''s1'', Str ''Burglary''], rb), ([Str ''s1'', Str ''Theft''], rt)} \<and>
      length (filter (\<lambda>g. hd (fst g) = Str ''s1'') (groups demo_counts)) = 2 \<and>
      get rb ''crime_count'' = Num 3 \<and> get rt ''crime_count'' = Num 2)"
proof -
  have run: "snd (io_bind (join_stage demo_env plane_lib (five_incidents, named_stops))
          (aggregate_stage demo_env)) = Inr demo_counts"
    unfolding demo_counts_def by code_simp
  have s: "(Str ''s1'' :: shape val) \<noteq> Null"
    by simp
  have b: "length (filter (\<lambda>r. get r ''NaptanCode'' = Str ''s1'' \<and> get r ''Crime type'' = Str ''Burglary'')
             (rws (projr (snd (join_stage demo_env plane_lib (five_incidents, named_stops)))))) = 3"
    by code_simp
  have t: "length (filter (\<lambda>r. get r ''NaptanCode'' = Str ''s1'' \<and> get r ''Crime type'' = Str ''Theft'')
             (rws (projr (snd (join_stage demo_env plane_lib (five_incidents, named_stops)))))) = 2"
    by code_simp
  have only: "\<forall>r \<in> set (rws (projr (snd (join_stage demo_env plane_lib (five_incidents, named_stops))))).
                get r ''NaptanCode'' = Str ''s1'' \<longrightarrow>
                get r ''Crime type'' = Str ''Burglary'' \<or> get r ''Crime type'' = Str ''Theft''"
    by code_simp
  from aggregation_counts [OF run s b t only] run b t
  show ?thesis
    by blast
qed

end
